theory Spec2Isabelle
  imports Complex_Main "HOL-Library.AList"
begin

section \<open>JavaScript values and the number/string conversions the code relies on\<close>

text \<open>
  A field of \<^verbatim>\<open>req.body\<close> is any JSON value. Numbers are modelled as exact rationals
  (every finite double is one); rounding of doubles is outside the model, so the model
  agrees with JavaScript on integers of magnitude below \<open>2^53\<close> and on exact arithmetic
  over short decimals. Arrays and objects as a quantity are not modelled.
\<close>

datatype jsval = JUndefined | JNull | JBool bool | JNum rat | JStr string

definition digit_char :: "nat \<Rightarrow> char" where
  "digit_char d = ''0123456789'' ! d"

function nat_toString :: "nat \<Rightarrow> string" where
  "nat_toString n =
     (if n < 10 then [digit_char n] else nat_toString (n div 10) @ [digit_char (n mod 10)])"
  by pat_completeness auto
termination
  by (relation "measure id") auto

declare nat_toString.simps [simp del]

definition int_toString :: "int \<Rightarrow> string" where
  "int_toString i =
     (if i < 0 then CHR ''-'' # nat_toString (nat (- i)) else nat_toString (nat i))"

fun frac_digits :: "nat \<Rightarrow> rat \<Rightarrow> string" where
  "frac_digits 0 f = []"
| "frac_digits (Suc k) f =
     (if f = 0 then []
      else digit_char (nat \<lfloor>f * 10\<rfloor>) # frac_digits k (f * 10 - of_int \<lfloor>f * 10\<rfloor>))"

text \<open>
  \<^verbatim>\<open>Number.prototype.toString\<close>. For an integer of magnitude below \<open>10^21\<close> JavaScript
  prints the plain decimal digits, as here. For a non-integer the model prints the exact
  decimal expansion (at most 17 fraction digits), which is what JavaScript prints for
  short decimals such as 1.5; in every case the text of a non-integer holds a \<open>.\<close>.
\<close>

definition number_toString :: "rat \<Rightarrow> string" where
  "number_toString r =
     (if of_int \<lfloor>r\<rfloor> = r then int_toString \<lfloor>r\<rfloor>
      else (if r < 0 then ''-'' else '''') @ nat_toString (nat \<lfloor>\<bar>r\<bar>\<rfloor>) @ ''.''
           @ frac_digits 17 (\<bar>r\<bar> - of_int \<lfloor>\<bar>r\<bar>\<rfloor>))"

text \<open>
  \<^verbatim>\<open>quantity.toString()\<close> in the bulk update is reached only after \<^verbatim>\<open>quantity > 0\<close>
  held, which excludes \<^verbatim>\<open>null\<close> and \<^verbatim>\<open>undefined\<close>; their two lines below are never used.
\<close>

fun js_toString :: "jsval \<Rightarrow> string" where
  "js_toString (JNum r) = number_toString r"
| "js_toString (JStr s) = s"
| "js_toString (JBool b) = (if b then ''true'' else ''false'')"
| "js_toString JNull = ''null''"
| "js_toString JUndefined = ''undefined''"

text \<open>
  \<^verbatim>\<open>quantity > 0\<close> on an arbitrary JSON value: the value is converted to a number first.
  The conversion of a string (\<^verbatim>\<open>Number(s)\<close>, \<open>None\<close> for NaN) is JavaScript's own and is
  taken as the parameter \<open>toNumber\<close>.
\<close>

fun js_gt_zero :: "(string \<Rightarrow> rat option) \<Rightarrow> jsval \<Rightarrow> bool" where
  "js_gt_zero toNumber (JNum r) = (r > 0)"
| "js_gt_zero toNumber (JStr s) = (case toNumber s of None \<Rightarrow> False | Some r \<Rightarrow> r > 0)"
| "js_gt_zero toNumber (JBool b) = b"
| "js_gt_zero toNumber JNull = False"
| "js_gt_zero toNumber JUndefined = False"

definition is_digit :: "char \<Rightarrow> bool" where
  "is_digit c = (c \<in> set ''0123456789'')"

text \<open>The value of a decimal digit: its position among the ten digits.\<close>

definition digit_val :: "char \<Rightarrow> nat" where
  "digit_val c = length (takeWhile (\<lambda>d. d \<noteq> c) ''0123456789'')"

definition digits_value :: "string \<Rightarrow> nat" where
  "digits_value ds = foldl (\<lambda>acc c. 10 * acc + digit_val c) 0 ds"

definition is_space :: "char \<Rightarrow> bool" where
  "is_space c = (c \<in> set [CHR '' '', CHR 0x09, CHR 0x0A, CHR 0x0B, CHR 0x0C, CHR 0x0D])"

text \<open>
  \<^verbatim>\<open>parseInt(value, 10)\<close>: leading white space is skipped, one sign is read, then the
  longest run of decimal digits; no digit at all gives NaN, which is \<open>None\<close> here.
\<close>

definition parseInt :: "string \<Rightarrow> int option" where
  "parseInt s =
     (let t = dropWhile is_space s;
          neg = (t \<noteq> [] \<and> hd t = CHR ''-'');
          r = (if t \<noteq> [] \<and> (hd t = CHR ''-'' \<or> hd t = CHR ''+'') then tl t else t);
          ds = takeWhile is_digit r
      in if ds = [] then None
         else Some (if neg then - int (digits_value ds) else int (digits_value ds)))"

text \<open>\<^verbatim>\<open>parseCart\<close> of \<^verbatim>\<open>utils/cart.ts\<close>: every value of the hash through \<^verbatim>\<open>parseInt\<close>.\<close>

definition parseCart :: "(string \<times> string) list \<Rightarrow> (string \<times> int option) list" where
  "parseCart cartRaw = map (\<lambda>(key, val). (key, parseInt val)) cartRaw"

section \<open>The two stores\<close>

text \<open>
  The cache store (Redis): hashes by key, each a field/value list with distinct fields;
  a key with no field does not exist, and a key that stops existing loses its expiry.
  Sets by key (only \<^verbatim>\<open>dirtyCarts\<close> is used). The durable store (PostgreSQL): the
  tables of the schema, with the columns the cart code reads or writes. Foreign keys
  to users and products and the 32-bit range of the quantity columns are not modelled:
  a statement is rejected here only for a NaN or a missing price among its parameters.
\<close>

record cart_row =
  c_id :: nat
  c_user_id :: string
  c_updated_at :: nat
  c_last_synced_at :: nat

record cart_item_row =
  ci_cart_id :: nat
  ci_product_id :: string
  ci_quantity :: int
  ci_updated_at :: nat

record product_row =
  p_id :: string
  p_price :: rat

record order_row =
  o_id :: nat
  o_user_id :: string
  o_status :: string
  o_placed_at :: nat
  o_total_amount :: "rat option"

record order_item_row =
  oi_order_id :: nat
  oi_product_id :: string
  oi_quantity :: int
  oi_price :: rat

record tables =
  carts :: "cart_row list"
  cart_items :: "cart_item_row list"
  products :: "product_row list"
  orders :: "order_row list"
  order_items :: "order_item_row list"

text \<open>
  What a call can throw: a connectivity or timeout failure of either store, an error
  reply of the cache store (\<^verbatim>\<open>ERR value is not an integer or out of range\<close>), a
  statement the durable store rejects, and the \<^verbatim>\<open>Error\<close> the checkout throws itself.
\<close>

datatype err = StoreUnavailable | ReplyError | QueryError | ProductsNotFound

text \<open>
  The world a handler runs in. \<open>tx\<close> holds the tables as they were at \<^verbatim>\<open>BEGIN\<close> while
  a transaction is open. \<open>next_id\<close> is the sequence behind the generated ids (a sequence
  is not rolled back). \<open>now\<close> is what \<^verbatim>\<open>NOW()\<close> returns. \<open>faults\<close> is the schedule of
  connectivity failures: every awaited store operation takes the head of the list and
  fails when it is \<open>True\<close>; an empty list means no failure. \<open>console\<close> collects what
  \<^verbatim>\<open>console.error\<close> prints (the progress messages of \<^verbatim>\<open>console.log\<close> are left out).
\<close>

record world =
  hashes :: "string \<Rightarrow> (string \<times> string) list"
  expiry :: "string \<Rightarrow> nat option"
  sets :: "string \<Rightarrow> string list"
  pg :: tables
  tx :: "tables option"
  next_id :: nat
  now :: nat
  faults :: "bool list"
  console :: "(string \<times> err) list"

type_synonym 'a io = "world \<Rightarrow> (err + 'a) \<times> world"

definition attempt :: "world \<Rightarrow> bool \<times> world" where
  "attempt w = (case faults w of [] \<Rightarrow> (False, w) | f # fs \<Rightarrow> (f, w\<lparr>faults := fs\<rparr>))"

text \<open>An awaited store operation: it fails without effect when its fault is scheduled.\<close>

definition io :: "'a io \<Rightarrow> 'a io" where
  "io f w = (case attempt w of (failed, w1) \<Rightarrow>
               if failed then (Inl StoreUnavailable, w1) else f w1)"

text \<open>Sequencing of awaits: the first error is thrown past the rest.\<close>

definition and_then :: "'a io \<Rightarrow> ('a \<Rightarrow> 'b io) \<Rightarrow> 'b io" where
  "and_then m f w = (case m w of (Inl e, w1) \<Rightarrow> (Inl e, w1) | (Inr x, w1) \<Rightarrow> f x w1)"

definition log_error :: "string \<Rightarrow> err \<Rightarrow> world \<Rightarrow> world" where
  "log_error label e w = w\<lparr>console := console w @ [(label, e)]\<rparr>"

subsection \<open>Cache store commands\<close>

definition set_hash :: "string \<Rightarrow> (string \<times> string) list \<Rightarrow> world \<Rightarrow> world" where
  "set_hash key h w =
     w\<lparr>hashes := (hashes w)(key := h),
       expiry := (if h = [] then (expiry w)(key := None) else expiry w)\<rparr>"

datatype command = HSet string string string | HDel string string | Expire string nat

fun run_command :: "command \<Rightarrow> world \<Rightarrow> world" where
  "run_command (HSet key field val) w = set_hash key (AList.update field val (hashes w key)) w"
| "run_command (HDel key field) w = set_hash key (AList.delete field (hashes w key)) w"
| "run_command (Expire key ttl) w =
     (if hashes w key = [] then w else w\<lparr>expiry := (expiry w)(key := Some ttl)\<rparr>)"

definition hGetAll :: "string \<Rightarrow> ((string \<times> string) list) io" where
  "hGetAll key = io (\<lambda>w. (Inr (hashes w key), w))"

definition hSet :: "string \<Rightarrow> string \<Rightarrow> string \<Rightarrow> unit io" where
  "hSet key field val = io (\<lambda>w. (Inr (), run_command (HSet key field val) w))"

definition hDel :: "string \<Rightarrow> string \<Rightarrow> unit io" where
  "hDel key field = io (\<lambda>w. (Inr (), run_command (HDel key field) w))"

definition expire :: "string \<Rightarrow> nat \<Rightarrow> unit io" where
  "expire key ttl = io (\<lambda>w. (Inr (), run_command (Expire key ttl) w))"

definition del :: "string \<Rightarrow> unit io" where
  "del key = io (\<lambda>w. (Inr (), set_hash key [] w))"

text \<open>
  The integers the cache store accepts in \<^verbatim>\<open>HINCRBY\<close>: the canonical decimal text of a
  signed 64-bit integer, nothing else (no sign \<open>+\<close>, no leading zero, no white space).
\<close>

definition in_int64 :: "int \<Rightarrow> bool" where
  "in_int64 n = (- (2 ^ 63) \<le> n \<and> n \<le> 2 ^ 63 - 1)"

definition string2ll :: "string \<Rightarrow> int option" where
  "string2ll s =
     (case parseInt s of
        None \<Rightarrow> None
      | Some n \<Rightarrow> if int_toString n = s \<and> in_int64 n then Some n else None)"

text \<open>
  \<^verbatim>\<open>HINCRBY key field increment\<close>: the increment must be a 64-bit integer, the field (0
  when absent) must hold one, and so must the sum; otherwise the store replies with an
  error and changes nothing.
\<close>

definition stored_integer :: "(string \<times> string) list \<Rightarrow> string \<Rightarrow> int option" where
  "stored_integer h field = (case map_of h field of None \<Rightarrow> Some 0 | Some v \<Rightarrow> string2ll v)"

definition hIncrBy :: "string \<Rightarrow> string \<Rightarrow> rat \<Rightarrow> unit io" where
  "hIncrBy key field increment =
     io (\<lambda>w.
       if of_int \<lfloor>increment\<rfloor> \<noteq> increment \<or> \<not> in_int64 \<lfloor>increment\<rfloor> then (Inl ReplyError, w)
       else
         (case stored_integer (hashes w key) field of
            None \<Rightarrow> (Inl ReplyError, w)
          | Some old \<Rightarrow>
              if in_int64 (old + \<lfloor>increment\<rfloor>)
              then (Inr (), run_command (HSet key field (int_toString (old + \<lfloor>increment\<rfloor>))) w)
              else (Inl ReplyError, w)))"

text \<open>\<^verbatim>\<open>multi()\<close> ... \<^verbatim>\<open>exec()\<close>: the queued commands run as one operation of the store.\<close>

definition exec :: "command list \<Rightarrow> unit io" where
  "exec pipeline = io (\<lambda>w. (Inr (), fold run_command pipeline w))"

definition sAdd :: "string \<Rightarrow> string \<Rightarrow> unit io" where
  "sAdd key member = io (\<lambda>w. (Inr (), w\<lparr>sets := (sets w)(key := List.insert member (sets w key))\<rparr>))"

definition sRem :: "string \<Rightarrow> string \<Rightarrow> unit io" where
  "sRem key member = io (\<lambda>w. (Inr (), w\<lparr>sets := (sets w)(key := removeAll member (sets w key))\<rparr>))"

definition sMembers :: "string \<Rightarrow> (string list) io" where
  "sMembers key = io (\<lambda>w. (Inr (sets w key), w))"

subsection \<open>Durable store statements\<close>

definition connect :: "unit io" where
  "connect = io (\<lambda>w. (Inr (), w))"

definition query_begin :: "unit io" where
  "query_begin = io (\<lambda>w. (Inr (), w\<lparr>tx := Some (pg w)\<rparr>))"

definition query_commit :: "unit io" where
  "query_commit = io (\<lambda>w. (Inr (), w\<lparr>tx := None\<rparr>))"

text \<open>
  \<^verbatim>\<open>ROLLBACK\<close> puts the tables back as they were at \<^verbatim>\<open>BEGIN\<close>; with no transaction
  open it does nothing. When the statement itself cannot reach the store the open
  transaction is lost with the connection, so the tables go back all the same.
\<close>

definition query_rollback :: "unit io" where
  "query_rollback w =
     (case attempt w of (failed, w1) \<Rightarrow>
        (if failed then Inl StoreUnavailable else Inr (),
         case tx w1 of None \<Rightarrow> w1 | Some t \<Rightarrow> w1\<lparr>pg := t, tx := None\<rparr>))"

text \<open>
  \<^verbatim>\<open>INSERT INTO carts ... ON CONFLICT (user_id) DO UPDATE ... RETURNING id\<close>: the
  user's row gets both timestamps set to now, and is created with a fresh id when there
  is none.
\<close>

definition upsert_cart :: "string \<Rightarrow> nat io" where
  "upsert_cart userId =
     io (\<lambda>w.
       case find (\<lambda>c. c_user_id c = userId) (carts (pg w)) of
         Some c \<Rightarrow>
           (Inr (c_id c),
            w\<lparr>pg := (pg w)\<lparr>carts :=
                 map (\<lambda>r. if c_user_id r = userId
                           then r\<lparr>c_updated_at := now w, c_last_synced_at := now w\<rparr> else r)
                     (carts (pg w))\<rparr>\<rparr>)
       | None \<Rightarrow>
           (Inr (next_id w),
            w\<lparr>pg := (pg w)\<lparr>carts := carts (pg w) @
                 [\<lparr>c_id = next_id w, c_user_id = userId,
                   c_updated_at = now w, c_last_synced_at = now w\<rparr>]\<rparr>,
              next_id := Suc (next_id w)\<rparr>))"

definition delete_cart_items :: "nat \<Rightarrow> unit io" where
  "delete_cart_items cartId =
     io (\<lambda>w. (Inr (), w\<lparr>pg := (pg w)\<lparr>cart_items :=
                 filter (\<lambda>r. ci_cart_id r \<noteq> cartId) (cart_items (pg w))\<rparr>\<rparr>))"

text \<open>One row of the bulk insert, with \<^verbatim>\<open>ON CONFLICT (cart_id, product_id) DO UPDATE\<close>.\<close>

definition upsert_cart_item :: "nat \<Rightarrow> nat \<Rightarrow> string \<times> int \<Rightarrow> cart_item_row list \<Rightarrow> cart_item_row list" where
  "upsert_cart_item t cartId item rows =
     (if \<exists>r \<in> set rows. ci_cart_id r = cartId \<and> ci_product_id r = fst item
      then map (\<lambda>r. if ci_cart_id r = cartId \<and> ci_product_id r = fst item
                      then r\<lparr>ci_quantity := snd item, ci_updated_at := t\<rparr> else r) rows
      else rows @ [\<lparr>ci_cart_id = cartId, ci_product_id = fst item,
                     ci_quantity = snd item, ci_updated_at = t\<rparr>])"

text \<open>
  The quantity column holds integers: a NaN among the parameters makes the durable
  store reject the statement.
\<close>

fun known_quantities :: "(string \<times> int option) list \<Rightarrow> (string \<times> int) list option" where
  "known_quantities [] = Some []"
| "known_quantities ((productId, None) # rest) = None"
| "known_quantities ((productId, Some q) # rest) =
     map_option (\<lambda>items. (productId, q) # items) (known_quantities rest)"

definition insert_cart_items :: "nat \<Rightarrow> (string \<times> int option) list \<Rightarrow> unit io" where
  "insert_cart_items cartId cart =
     io (\<lambda>w.
       case known_quantities cart of
         None \<Rightarrow> (Inl QueryError, w)
       | Some items \<Rightarrow>
           (Inr (), w\<lparr>pg := (pg w)\<lparr>cart_items :=
               fold (upsert_cart_item (now w) cartId) items (cart_items (pg w))\<rparr>\<rparr>))"

text \<open>
  Modelled from the spec: the schema is not among the sources; deleting a cart row
  deletes its cart-item rows with it (``cascading to items'').
\<close>

definition delete_carts :: "string \<Rightarrow> unit io" where
  "delete_carts userId =
     io (\<lambda>w. (Inr (), w\<lparr>pg := (pg w)\<lparr>
        carts := filter (\<lambda>c. c_user_id c \<noteq> userId) (carts (pg w)),
        cart_items := filter (\<lambda>r. ci_cart_id r \<notin> c_id ` set (filter (\<lambda>c. c_user_id c = userId) (carts (pg w))))
                        (cart_items (pg w))\<rparr>\<rparr>))"

text \<open>
  \<^verbatim>\<open>SELECT ci.product_id, ci.quantity FROM cart_items ci JOIN carts c ON ci.cart_id = c.id
  WHERE c.user_id = $1\<close>; an undefined user id is sent as NULL and matches no row.
\<close>

definition cart_rows_of :: "string \<Rightarrow> tables \<Rightarrow> (string \<times> int) list" where
  "cart_rows_of userId t =
     concat (map (\<lambda>c. map (\<lambda>r. (ci_product_id r, ci_quantity r))
                         (filter (\<lambda>r. ci_cart_id r = c_id c) (cart_items t)))
                 (filter (\<lambda>c. c_user_id c = userId) (carts t)))"

definition select_cart_items :: "string option \<Rightarrow> ((string \<times> int) list) io" where
  "select_cart_items user =
     io (\<lambda>w. (Inr (case user of None \<Rightarrow> [] | Some userId \<Rightarrow> cart_rows_of userId (pg w)), w))"

text \<open>\<^verbatim>\<open>SELECT id, price FROM products WHERE id = ANY($1)\<close>.\<close>

definition select_prices :: "string list \<Rightarrow> (product_row list) io" where
  "select_prices productIds =
     io (\<lambda>w. (Inr (filter (\<lambda>p. p_id p \<in> set productIds) (products (pg w))), w))"

definition insert_order :: "string \<Rightarrow> rat option \<Rightarrow> nat io" where
  "insert_order userId totalAmount =
     io (\<lambda>w. (Inr (next_id w),
          w\<lparr>pg := (pg w)\<lparr>orders := orders (pg w) @
               [\<lparr>o_id = next_id w, o_user_id = userId, o_status = ''pending'',
                 o_placed_at = now w, o_total_amount = totalAmount\<rparr>]\<rparr>,
            next_id := Suc (next_id w)\<rparr>))"

text \<open>
  An order item needs an integer quantity and a price: NaN or a price that was not
  fetched makes the durable store reject the row.
\<close>

definition insert_order_item :: "nat \<Rightarrow> string \<Rightarrow> int option \<Rightarrow> rat option \<Rightarrow> unit io" where
  "insert_order_item orderId productId quantity price =
     io (\<lambda>w.
       case (quantity, price) of
         (Some q, Some p) \<Rightarrow>
           (Inr (), w\<lparr>pg := (pg w)\<lparr>order_items := order_items (pg w) @
              [\<lparr>oi_order_id = orderId, oi_product_id = productId,
                oi_quantity = q, oi_price = p\<rparr>]\<rparr>\<rparr>)
       | _ \<Rightarrow> (Inl QueryError, w))"

section \<open>The reconciler: \<^verbatim>\<open>jobs/cartSync.ts\<close>\<close>

text \<open>
  \<^verbatim>\<open>syncCartToPostgres\<close>. An empty cart returns at once. \<^verbatim>\<open>pool.connect()\<close> is
  outside the \<^verbatim>\<open>try\<close>, so its failure is thrown to the caller. Everything the
  transaction throws is caught: rolled back, logged, and the function returns normally.
  A failing \<^verbatim>\<open>ROLLBACK\<close> inside the \<^verbatim>\<open>catch\<close> is thrown to the caller.
\<close>

definition sync_transaction :: "string \<Rightarrow> (string \<times> int option) list \<Rightarrow> unit io" where
  "sync_transaction userId cart =
     and_then query_begin (\<lambda>_.
     and_then (upsert_cart userId) (\<lambda>cartId.
     and_then (delete_cart_items cartId) (\<lambda>_.
     and_then (if length cart > 0 then insert_cart_items cartId cart else (\<lambda>w. (Inr (), w))) (\<lambda>_.
     query_commit))))"

definition syncCartToPostgres :: "string \<Rightarrow> (string \<times> int option) list \<Rightarrow> unit io" where
  "syncCartToPostgres userId cart w =
     (if length cart = 0 then (Inr (), w)
      else
        (case connect w of
           (Inl e, w1) \<Rightarrow> (Inl e, w1)
         | (Inr _, w1) \<Rightarrow>
             (case sync_transaction userId cart w1 of
                (Inr _, w2) \<Rightarrow> (Inr (), w2)
              | (Inl e, w2) \<Rightarrow>
                  (case query_rollback w2 of
                     (Inl e', w3) \<Rightarrow> (Inl e', w3)
                   | (Inr _, w3) \<Rightarrow> (Inr (), log_error ''Failed to sync cart for user'' e w3)))))"

text \<open>The body of the loop over the dirty users, and the loop.\<close>

definition sync_user :: "string \<Rightarrow> unit io" where
  "sync_user userId =
     and_then (hGetAll (''cart:'' @ userId)) (\<lambda>cartRaw.
     and_then (syncCartToPostgres userId (parseCart cartRaw)) (\<lambda>_.
     sRem ''dirtyCarts'' userId))"

fun sync_users :: "string list \<Rightarrow> unit io" where
  "sync_users [] w = (Inr (), w)"
| "sync_users (userId # userIds) w =
     (case sync_user userId w of
        (Inl e, w1) \<Rightarrow> (Inl e, w1)
      | (Inr _, w1) \<Rightarrow> sync_users userIds w1)"

text \<open>One run of the job scheduled by \<^verbatim>\<open>startCartSyncJob\<close>.\<close>

definition cart_sync_run :: "world \<Rightarrow> world" where
  "cart_sync_run w =
     (case and_then (sMembers ''dirtyCarts'') sync_users w of
        (Inr _, w1) \<Rightarrow> w1
      | (Inl e, w1) \<Rightarrow> log_error ''Cart sync job failed'' e w1)"

section \<open>The cart routes: \<^verbatim>\<open>routes/cart.ts\<close>\<close>

datatype body =
  Message string
| Error string
| Cart "(string \<times> int option) list"
| OrderPlaced string nat

datatype response = Response (status: nat) (body: body)

definition CART_TTL :: nat where
  "CART_TTL = 60 * 60 * 24"

definition CART_KEY_PREFIX :: string where
  "CART_KEY_PREFIX = ''cart:''"

definition handleRedisError :: "err \<Rightarrow> string \<Rightarrow> world \<Rightarrow> response \<times> world" where
  "handleRedisError e message w = (Response 500 (Error message), log_error ''Redis error'' e w)"

text \<open>
  \<^verbatim>\<open>req.user?.id\<close> is \<open>None\<close> when the request carries no user; \<^verbatim>\<open>!userId\<close> also holds
  for the empty string. In a template string an undefined id prints as \<^verbatim>\<open>undefined\<close>.
\<close>

definition falsy :: "string option \<Rightarrow> bool" where
  "falsy v = (case v of None \<Rightarrow> True | Some s \<Rightarrow> s = [])"

definition cart_key :: "string option \<Rightarrow> string" where
  "cart_key user = CART_KEY_PREFIX @ (case user of None \<Rightarrow> ''undefined'' | Some userId \<Rightarrow> userId)"

text \<open>\<^verbatim>\<open>POST /add\<close>. The product id of the body is a string or missing.\<close>

definition add_item :: "string option \<Rightarrow> string option \<Rightarrow> jsval \<Rightarrow> world \<Rightarrow> response \<times> world" where
  "add_item user productId quantity w =
     (case user of
        None \<Rightarrow> (Response 401 (Error ''User not authenticated''), w)
      | Some userId \<Rightarrow>
          if userId = [] then (Response 401 (Error ''User not authenticated''), w)
          else
            (case (productId, quantity) of
               (Some pid, JNum q) \<Rightarrow>
                 if pid = [] \<or> q \<le> 0
                 then (Response 400 (Error ''Valid productId and quantity required''), w)
                 else
                   (case and_then (hIncrBy (cart_key user) pid q) (\<lambda>_.
                         and_then (expire (cart_key user) CART_TTL) (\<lambda>_.
                         sAdd ''dirtyCarts'' userId)) w of
                      (Inr _, w1) \<Rightarrow> (Response 200 (Message ''Item added to cart''), w1)
                    | (Inl e, w1) \<Rightarrow> handleRedisError e ''Failed to add to cart'' w1)
             | _ \<Rightarrow> (Response 400 (Error ''Valid productId and quantity required''), w)))"

text \<open>
  \<^verbatim>\<open>GET /\<close>. There is no check of the user here. The rows of the durable cart are folded
  into an object (a later row of the same product replaces the earlier one), each entry
  is queued as \<^verbatim>\<open>HSET\<close> with \<^verbatim>\<open>String(qty)\<close>, then the expiry, and the pipeline runs.
  An object is modelled as the list of its entries in insertion order; JavaScript moves
  keys that look like array indices to the front, which changes the order of the
  entries and never the mapping.
\<close>

definition rows_to_cart :: "(string \<times> int) list \<Rightarrow> (string \<times> int) list" where
  "rows_to_cart rows = fold (\<lambda>row acc. AList.update (fst row) (snd row) acc) rows []"

definition restore_pipeline :: "string \<Rightarrow> (string \<times> int) list \<Rightarrow> command list" where
  "restore_pipeline cartKey cart =
     map (\<lambda>entry. HSet cartKey (fst entry) (int_toString (snd entry))) cart @ [Expire cartKey CART_TTL]"

definition get_cart :: "string option \<Rightarrow> world \<Rightarrow> response \<times> world" where
  "get_cart user w =
     (case hGetAll (cart_key user) w of
        (Inl e, w1) \<Rightarrow> handleRedisError e ''Failed to fetch cart'' w1
      | (Inr cartRaw, w1) \<Rightarrow>
          if length cartRaw = 0 then
            (case select_cart_items user w1 of
               (Inl e, w2) \<Rightarrow> handleRedisError e ''Failed to fetch cart'' w2
             | (Inr rows, w2) \<Rightarrow>
                 if length rows > 0 then
                   (case exec (restore_pipeline (cart_key user) (rows_to_cart rows)) w2 of
                      (Inl e, w3) \<Rightarrow> handleRedisError e ''Failed to fetch cart'' w3
                    | (Inr _, w3) \<Rightarrow>
                        (Response 200 (Cart (map (\<lambda>entry. (fst entry, Some (snd entry))) (rows_to_cart rows))), w3))
                 else (Response 200 (Cart []), w2))
          else (Response 200 (Cart (parseCart cartRaw)), w1))"

text \<open>
  \<^verbatim>\<open>PUT /update\<close>. \<^verbatim>\<open>quantity == null\<close> holds for null and for a missing quantity;
  \<^verbatim>\<open>typeof quantity === "number"\<close> holds for numbers only.
\<close>

fun nullish :: "jsval \<Rightarrow> bool" where
  "nullish JNull = True"
| "nullish JUndefined = True"
| "nullish _ = False"

fun is_number :: "jsval \<Rightarrow> bool" where
  "is_number (JNum q) = True"
| "is_number _ = False"

definition update_item :: "string option \<Rightarrow> string option \<Rightarrow> jsval \<Rightarrow> world \<Rightarrow> response \<times> world" where
  "update_item user productId quantity w =
     (case user of
        None \<Rightarrow> (Response 401 (Error ''User not authenticated''), w)
      | Some userId \<Rightarrow>
          if userId = [] then (Response 401 (Error ''User not authenticated''), w)
          else
            (case productId of
               None \<Rightarrow> (Response 400 (Error ''productId required''), w)
             | Some pid \<Rightarrow>
                 if pid = [] then (Response 400 (Error ''productId required''), w)
                 else if \<not> nullish quantity \<and> \<not> is_number quantity
                 then (Response 400 (Error ''Quantity must be a number''), w)
                 else
                   (case and_then
                           (case quantity of
                              JNum q \<Rightarrow> if q \<le> 0 then hDel (cart_key user) pid
                                        else hSet (cart_key user) pid (number_toString q)
                            | _ \<Rightarrow> hDel (cart_key user) pid) (\<lambda>_.
                         and_then (expire (cart_key user) CART_TTL) (\<lambda>_.
                         sAdd ''dirtyCarts'' userId)) w of
                      (Inr _, w1) \<Rightarrow> (Response 200 (Message ''Cart updated''), w1)
                    | (Inl e, w1) \<Rightarrow> handleRedisError e ''Failed to update cart'' w1)))"

text \<open>\<^verbatim>\<open>DELETE /clear\<close>.\<close>

definition clear_cart :: "string option \<Rightarrow> world \<Rightarrow> response \<times> world" where
  "clear_cart user w =
     (case user of
        None \<Rightarrow> (Response 401 (Error ''User not authenticated''), w)
      | Some userId \<Rightarrow>
          if userId = [] then (Response 401 (Error ''User not authenticated''), w)
          else
            (case and_then (del (cart_key user)) (\<lambda>_.
                  and_then (delete_carts userId) (\<lambda>_.
                  sAdd ''dirtyCarts'' userId)) w of
               (Inr _, w1) \<Rightarrow> (Response 200 (Message ''Cart cleared''), w1)
             | (Inl e, w1) \<Rightarrow> handleRedisError e ''Failed to clear cart'' w1))"

text \<open>
  \<^verbatim>\<open>POST /update-bulk\<close>. \<open>items\<close> is \<open>None\<close> when the body holds no array. An item is a
  product id (a string) and a quantity (any JSON value).
\<close>

definition bulk_pipeline :: "(string \<Rightarrow> rat option) \<Rightarrow> string \<Rightarrow> (string \<times> jsval) list \<Rightarrow> command list" where
  "bulk_pipeline toNumber cartKey items =
     map (\<lambda>item. if js_gt_zero toNumber (snd item)
                  then HSet cartKey (fst item) (js_toString (snd item))
                  else HDel cartKey (fst item)) items"

definition bulk_update ::
  "(string \<Rightarrow> rat option) \<Rightarrow> string option \<Rightarrow> (string \<times> jsval) list option \<Rightarrow> world \<Rightarrow> response \<times> world" where
  "bulk_update toNumber user items w =
     (case user of
        None \<Rightarrow> (Response 401 (Error ''User not authenticated''), w)
      | Some userId \<Rightarrow>
          if userId = [] then (Response 401 (Error ''User not authenticated''), w)
          else
            (case items of
               None \<Rightarrow> (Response 400 (Error ''Items array required''), w)
             | Some its \<Rightarrow>
                 (case and_then (exec (bulk_pipeline toNumber (cart_key user) its)) (\<lambda>_.
                       and_then (expire (cart_key user) CART_TTL) (\<lambda>_.
                       sAdd ''dirtyCarts'' userId)) w of
                    (Inr _, w1) \<Rightarrow> (Response 200 (Message ''Cart updated in bulk''), w1)
                  | (Inl e, w1) \<Rightarrow> handleRedisError e ''Failed to bulk update cart'' w1)))"

text \<open>
  \<^verbatim>\<open>POST /checkout\<close>. The inner \<^verbatim>\<open>try\<close> holds the transaction and the two deletes after
  the commit; its \<^verbatim>\<open>catch\<close> rolls back and answers 500. What the \<^verbatim>\<open>catch\<close> itself throws,
  and what is thrown before the inner \<^verbatim>\<open>try\<close>, reaches the outer \<^verbatim>\<open>catch\<close>. The order
  number is computed by the code and never used; it is left out. A price is an exact
  decimal: the driver hands it over as a number or as decimal text, and the
  multiplication converts the text.
\<close>

definition prices_of :: "product_row list \<Rightarrow> (string \<times> rat) list" where
  "prices_of rows = fold (\<lambda>row acc. AList.update (p_id row) (p_price row) acc) rows []"

text \<open>\<^verbatim>\<open>prices[productId] * quantity\<close>: NaN when the price is undefined or the quantity is NaN.\<close>

definition line_amount :: "rat option \<Rightarrow> int option \<Rightarrow> rat option" where
  "line_amount price quantity =
     (case (price, quantity) of (Some p, Some q) \<Rightarrow> Some (p * of_int q) | _ \<Rightarrow> None)"

definition total_amount :: "(string \<times> rat) list \<Rightarrow> (string \<times> int option) list \<Rightarrow> rat option" where
  "total_amount prices cart =
     fold (\<lambda>entry acc.
             case (acc, line_amount (map_of prices (fst entry)) (snd entry)) of
               (Some a, Some l) \<Rightarrow> Some (a + l)
             | _ \<Rightarrow> None)
          cart (Some 0)"

fun insert_order_items :: "nat \<Rightarrow> (string \<times> rat) list \<Rightarrow> (string \<times> int option) list \<Rightarrow> unit io" where
  "insert_order_items orderId prices [] w = (Inr (), w)"
| "insert_order_items orderId prices (entry # cart) w =
     (case insert_order_item orderId (fst entry) (snd entry) (map_of prices (fst entry)) w of
        (Inl e, w1) \<Rightarrow> (Inl e, w1)
      | (Inr _, w1) \<Rightarrow> insert_order_items orderId prices cart w1)"

definition checkout_transaction :: "string \<Rightarrow> string \<Rightarrow> (string \<times> int option) list \<Rightarrow> nat io" where
  "checkout_transaction userId cartKey cart =
     and_then query_begin (\<lambda>_.
     and_then (select_prices (map fst cart)) (\<lambda>rows.
       if length rows \<noteq> length (map fst cart) then (\<lambda>w. (Inl ProductsNotFound, w))
       else
         and_then (insert_order userId (total_amount (prices_of rows) cart)) (\<lambda>orderId.
         and_then (insert_order_items orderId (prices_of rows) cart) (\<lambda>_.
         and_then query_commit (\<lambda>_.
         and_then (del cartKey) (\<lambda>_.
         and_then (delete_carts userId) (\<lambda>_ w. (Inr orderId, w))))))))"

definition checkout_failed :: "err \<Rightarrow> world \<Rightarrow> response \<times> world" where
  "checkout_failed e w =
     (Response 500 (Error ''Checkout failed''), log_error ''Checkout failed (Redis error)'' e w)"

definition checkout :: "string option \<Rightarrow> world \<Rightarrow> response \<times> world" where
  "checkout user w =
     (case hGetAll (cart_key user) w of
        (Inl e, w1) \<Rightarrow> checkout_failed e w1
      | (Inr cartRaw, w1) \<Rightarrow>
          if length (parseCart cartRaw) = 0 then (Response 400 (Error ''Cart is empty''), w1)
          else
            (case user of
               None \<Rightarrow> (Response 401 (Error ''Authentication error, user not found.''), w1)
             | Some userId \<Rightarrow>
                 if userId = []
                 then (Response 401 (Error ''Authentication error, user not found.''), w1)
                 else
                   (case connect w1 of
                      (Inl e, w2) \<Rightarrow> checkout_failed e w2
                    | (Inr _, w2) \<Rightarrow>
                        (case checkout_transaction userId (cart_key user) (parseCart cartRaw) w2 of
                           (Inr orderId, w3) \<Rightarrow>
                             (Response 200 (OrderPlaced ''Checkout successful'' orderId), w3)
                         | (Inl e, w3) \<Rightarrow>
                             (case query_rollback w3 of
                                (Inl e', w4) \<Rightarrow> checkout_failed e' w4
                              | (Inr _, w4) \<Rightarrow>
                                  (Response 500 (Error ''Checkout failed''),
                                   log_error ''Checkout failed'' e w4))))))"

section \<open>Notions the properties are stated with\<close>

text \<open>A world with both stores empty, no open transaction and no scheduled failure.\<close>

definition empty_world :: world where
  "empty_world =
     \<lparr>hashes = (\<lambda>key. []), expiry = (\<lambda>key. None), sets = (\<lambda>key. []),
      pg = \<lparr>carts = [], cart_items = [], products = [], orders = [], order_items = []\<rparr>,
      tx = None, next_id = 1, now = 100, faults = [], console = []\<rparr>"

text \<open>The cache-side state: cart hashes, expiries and the dirty set together.\<close>

definition same_cache :: "world \<Rightarrow> world \<Rightarrow> bool" where
  "same_cache w w' = (hashes w' = hashes w \<and> expiry w' = expiry w \<and> sets w' = sets w)"

text \<open>None of the next \<open>n\<close> store operations is scheduled to fail.\<close>

definition no_fault :: "nat \<Rightarrow> world \<Rightarrow> bool" where
  "no_fault n w = (True \<notin> set (take n (faults w)))"

text \<open>
  A stored quantity is well formed when it is the decimal text of a positive integer.
  \<open>quantities_ok\<close> says so of every cart hash of the cache store, and that every
  cart-item row of the durable store (from which a cart is restored) holds a positive
  quantity.
\<close>

definition quantity_text :: "string \<Rightarrow> bool" where
  "quantity_text v = (case parseInt v of None \<Rightarrow> False | Some n \<Rightarrow> 0 < n \<and> int_toString n = v)"

definition cart_ok :: "(string \<times> string) list \<Rightarrow> bool" where
  "cart_ok h = list_all (\<lambda>entry. quantity_text (snd entry)) h"

definition quantities_ok :: "world \<Rightarrow> bool" where
  "quantities_ok w =
     ((\<forall>key. cart_ok (hashes w key)) \<and> list_all (\<lambda>r. 0 < ci_quantity r) (cart_items (pg w)))"




text \<open>
  The uniqueness constraints of the schema: one cart row per user, one cart-item row
  per cart and product, one product row per id.
\<close>

definition unique_rows :: "tables \<Rightarrow> bool" where
  "unique_rows t =
     (distinct (map c_user_id (carts t))
      \<and> distinct (map (\<lambda>r. (ci_cart_id r, ci_product_id r)) (cart_items t))
      \<and> distinct (map p_id (products t)))"

text \<open>
  Worlds the statements are tried on. \<open>mirrored_world\<close>: no cache-side cart, the durable
  mirror of user \<open>u\<close> holds \<open>A: 2\<close> and \<open>B: 1\<close>. \<open>stale_world\<close>: user \<open>U\<close> is dirty, has no
  cache-side cart, and a durable cart last synced at time 5. \<open>two_dirty_world\<close>: users
  \<open>X\<close> and \<open>Y\<close> are dirty with one item each, and the fifth store operation of the run
  (the upsert of the cart row of \<open>X\<close>) fails.
\<close>

definition mirrored_world :: world where
  "mirrored_world =
     empty_world\<lparr>pg := \<lparr>carts = [\<lparr>c_id = 1, c_user_id = ''u'', c_updated_at = 5, c_last_synced_at = 5\<rparr>],
       cart_items = [\<lparr>ci_cart_id = 1, ci_product_id = ''A'', ci_quantity = 2, ci_updated_at = 5\<rparr>,
                     \<lparr>ci_cart_id = 1, ci_product_id = ''B'', ci_quantity = 1, ci_updated_at = 5\<rparr>],
       products = [], orders = [], order_items = []\<rparr>, next_id := 2\<rparr>"

definition stale_world :: world where
  "stale_world =
     empty_world\<lparr>sets := (\<lambda>key. [])(''dirtyCarts'' := [''U'']),
       pg := \<lparr>carts = [\<lparr>c_id = 1, c_user_id = ''U'', c_updated_at = 5, c_last_synced_at = 5\<rparr>],
         cart_items = [\<lparr>ci_cart_id = 1, ci_product_id = ''A'', ci_quantity = 2, ci_updated_at = 5\<rparr>],
         products = [], orders = [], order_items = []\<rparr>, next_id := 2\<rparr>"

definition two_dirty_world :: world where
  "two_dirty_world =
     empty_world\<lparr>hashes := (\<lambda>key. [])(''cart:X'' := [(''A'', ''1'')], ''cart:Y'' := [(''B'', ''2'')]),
       sets := (\<lambda>key. [])(''dirtyCarts'' := [''X'', ''Y'']),
       faults := [False, False, False, False, True]\<rparr>"

text \<open>The unit price the catalogue holds for a product id, if any.\<close>

definition unit_price :: "tables \<Rightarrow> string \<Rightarrow> rat option" where
  "unit_price t productId = map_of (map (\<lambda>p. (p_id p, p_price p)) (products t)) productId"

text \<open>
  \<open>priced_world\<close>: the spec's checkout example. User \<open>u\<close> holds \<open>A: 3\<close> in the cache-side
  cart and in the durable mirror; the catalogue prices \<open>A\<close> at 3.99.
\<close>

definition priced_world :: world where
  "priced_world =
     empty_world\<lparr>hashes := (\<lambda>key. [])(''cart:u'' := [(''A'', ''3'')]),
       pg := \<lparr>carts = [\<lparr>c_id = 1, c_user_id = ''u'', c_updated_at = 5, c_last_synced_at = 5\<rparr>],
         cart_items = [\<lparr>ci_cart_id = 1, ci_product_id = ''A'', ci_quantity = 3, ci_updated_at = 5\<rparr>],
         products = [\<lparr>p_id = ''A'', p_price = 399 / 100\<rparr>], orders = [], order_items = []\<rparr>,
       next_id := 2\<rparr>"

section \<open>Printing and reading decimal integers\<close>

lemma digit_cases: "d < 10 \<Longrightarrow> d \<in> {0, 1, 2, 3, 4, 5, 6, 7, 8, 9::nat}"
  by auto

lemma digit_char_props:
  assumes "d < 10"
  shows "is_digit (digit_char d)" "digit_val (digit_char d) = d" "\<not> is_space (digit_char d)"
    "digit_char d \<noteq> CHR ''-''" "digit_char d \<noteq> CHR ''+''"
  using digit_cases [OF assms]
  by (auto simp: digit_char_def is_digit_def digit_val_def is_space_def)

lemma digits_value_snoc: "digits_value (ds @ [c]) = 10 * digits_value ds + digit_val c"
  by (simp add: digits_value_def)

lemma nat_toString_props:
  "nat_toString n \<noteq> [] \<and> list_all is_digit (nat_toString n) \<and> digits_value (nat_toString n) = n"
proof (induction n rule: nat_toString.induct)
  case (1 n)
  show ?case
  proof (cases "n < 10")
    case True
    then show ?thesis
      by (simp add: nat_toString.simps [of n] digit_char_props digits_value_def)
  next
    case False
    with 1 show ?thesis
      by (simp add: nat_toString.simps [of n] digit_char_props digits_value_snoc)
  qed
qed

lemma nat_toString_hd:
  "is_digit (hd (nat_toString n))"
  using nat_toString_props [of n] by (cases "nat_toString n") auto

lemma is_digit_not_space: "is_digit c \<Longrightarrow> \<not> is_space c \<and> c \<noteq> CHR ''-'' \<and> c \<noteq> CHR ''+''"
  by (auto simp: is_digit_def is_space_def)

lemma takeWhile_all: "list_all P xs \<Longrightarrow> takeWhile P xs = xs"
  by (induction xs) auto

lemma parseInt_digits:
  assumes "ds \<noteq> []" "list_all is_digit ds"
  shows "parseInt ds = Some (int (digits_value ds))"
    and "parseInt (CHR ''-'' # ds) = Some (- int (digits_value ds))"
proof -
  have h: "is_digit (hd ds)" using assms by (cases ds) auto
  have dw: "dropWhile is_space ds = ds"
    using assms(1) is_digit_not_space [OF h] by (cases ds) auto
  have tw: "takeWhile is_digit ds = ds" using assms(2) by (rule takeWhile_all)
  have sg: "hd ds \<noteq> CHR ''-''" "hd ds \<noteq> CHR ''+''" using is_digit_not_space [OF h] by auto
  show "parseInt ds = Some (int (digits_value ds))"
    unfolding parseInt_def Let_def dw using assms(1) sg by (simp add: tw)
  have dw': "dropWhile is_space (CHR ''-'' # ds) = CHR ''-'' # ds"
    by (simp add: is_space_def)
  show "parseInt (CHR ''-'' # ds) = Some (- int (digits_value ds))"
    unfolding parseInt_def Let_def dw' using assms(1) by (simp add: tw)
qed

lemma parseInt_int_toString: "parseInt (int_toString i) = Some i"
  using parseInt_digits [of "nat_toString (nat i)"] parseInt_digits [of "nat_toString (nat (- i))"]
    nat_toString_props [of "nat i"] nat_toString_props [of "nat (- i)"]
  by (simp add: int_toString_def)

lemma string2ll_int_toString: "in_int64 i \<Longrightarrow> string2ll (int_toString i) = Some i"
  by (simp add: string2ll_def parseInt_int_toString)

lemma string2ll_SomeD: "string2ll s = Some n \<Longrightarrow> s = int_toString n \<and> in_int64 n"
  by (auto simp: string2ll_def split: option.splits if_splits)

section \<open>Facts about the store operations\<close>

lemma no_fault3_cases:
  assumes "no_fault 3 w"
  obtains "faults w = []" | "faults w = [False]" | "faults w = [False, False]"
  | r where "faults w = False # False # False # r"
proof (cases "faults w")
  case Nil
  then show ?thesis using that by simp
next
  case (Cons a l1)
  note c1 = this
  show ?thesis
  proof (cases l1)
    case Nil
    then show ?thesis using that c1 assms by (auto simp: no_fault_def)
  next
    case (Cons b l2)
    note c2 = this
    show ?thesis
    proof (cases l2)
      case Nil
      then show ?thesis using that c1 c2 assms by (auto simp: no_fault_def)
    next
      case (Cons c l3)
      then show ?thesis using that c1 c2 assms by (auto simp: no_fault_def)
    qed
  qed
qed

lemmas store_defs = io_def attempt_def and_then_def hGetAll_def hSet_def hDel_def expire_def del_def
  hIncrBy_def exec_def sAdd_def sRem_def sMembers_def set_hash_def log_error_def handleRedisError_def

lemma fault3_cases:
  assumes "\<not> no_fault 3 w"
  obtains r where "faults w = True # r" | r where "faults w = False # True # r"
  | r where "faults w = False # False # True # r"
proof (cases "faults w")
  case Nil
  then show ?thesis using assms by (simp add: no_fault_def)
next
  case (Cons a l1)
  note c1 = this
  show ?thesis
  proof (cases l1)
    case Nil
    then show ?thesis using that c1 assms by (auto simp: no_fault_def)
  next
    case (Cons b l2)
    note c2 = this
    show ?thesis
    proof (cases l2)
      case Nil
      then show ?thesis using that c1 c2 assms by (auto simp: no_fault_def)
    next
      case (Cons c l3)
      then show ?thesis using that c1 c2 assms by (cases a; cases b; cases c) (auto simp: no_fault_def)
    qed
  qed
qed

lemma run_command_frame [simp]:
  "faults (run_command c w) = faults w" "sets (run_command c w) = sets w"
  "pg (run_command c w) = pg w" "tx (run_command c w) = tx w"
  "next_id (run_command c w) = next_id w" "now (run_command c w) = now w"
  "console (run_command c w) = console w"
  by (cases c; simp add: set_hash_def)+

lemma fold_run_command_frame [simp]:
  "faults (fold run_command cs w) = faults w" "sets (fold run_command cs w) = sets w"
  "pg (fold run_command cs w) = pg w" "tx (fold run_command cs w) = tx w"
  "next_id (fold run_command cs w) = next_id w" "now (fold run_command cs w) = now w"
  "console (fold run_command cs w) = console w"
  by (induction cs arbitrary: w; simp)+

lemma run_command_faults_upd [simp]:
  "run_command c (w\<lparr>faults := fs\<rparr>) = (run_command c w)\<lparr>faults := fs\<rparr>"
  by (cases c) (simp_all add: set_hash_def)

lemma fold_run_command_faults_upd [simp]:
  "fold run_command cs (w\<lparr>faults := fs\<rparr>) = (fold run_command cs w)\<lparr>faults := fs\<rparr>"
  by (induction cs arbitrary: w) simp_all

lemma stored_integer_update:
  "in_int64 k \<Longrightarrow> stored_integer (AList.update f (int_toString k) h) f = Some k"
  by (simp add: stored_integer_def update_conv' string2ll_int_toString)

lemmas eval_defs = empty_world_def cart_key_def CART_KEY_PREFIX_def CART_TTL_def no_fault_def
  same_cache_def falsy_def stored_integer_def string2ll_def in_int64_def int_toString_def
  nat_toString.simps digit_char_def parseInt_def is_space_def is_digit_def digits_value_def
  digit_val_def Let_def parseCart_def



section \<open>Adding an item\<close>







section \<open>Store failures during a mutating call\<close>

lemma add_item_fault:
  assumes "userId \<noteq> []" "pid \<noteq> []" "0 < q" "\<not> no_fault 3 w"
  shows "status (fst (add_item (Some userId) (Some pid) (JNum q) w)) = 500"
proof -
  have nn: "\<not> q \<le> 0" using assms by simp
  show ?thesis
    using assms(4)
    by (cases rule: fault3_cases)
       (simp_all add: add_item_def store_defs assms(1,2) nn split: option.splits)
qed

lemma update_item_fault:
  assumes "userId \<noteq> []" "pid \<noteq> []" "nullish quantity \<or> is_number quantity" "\<not> no_fault 3 w"
  shows "status (fst (update_item (Some userId) (Some pid) quantity w)) = 500"
  using assms(4)
  by (cases rule: fault3_cases; cases quantity)
     (use assms(3) in \<open>simp_all add: update_item_def store_defs assms(1,2)\<close>)

lemma bulk_update_fault:
  assumes "userId \<noteq> []" "\<not> no_fault 3 w"
  shows "status (fst (bulk_update toNumber (Some userId) (Some items) w)) = 500"
  using assms(2)
  by (cases rule: fault3_cases) (simp_all add: bulk_update_def store_defs assms(1))

lemma clear_cart_fault:
  assumes "userId \<noteq> []" "\<not> no_fault 3 w"
  shows "status (fst (clear_cart (Some userId) w)) = 500"
  using assms(2)
  by (cases rule: fault3_cases) (simp_all add: clear_cart_def store_defs delete_carts_def assms(1))

lemma first_fault_same_cache:
  assumes "faults w = True # r"
  shows "same_cache w (snd (add_item user productId quantity w))"
    and "same_cache w (snd (update_item user productId quantity w))"
    and "same_cache w (snd (bulk_update toNumber user items w))"
    and "same_cache w (snd (clear_cart user w))"
proof -
  show "same_cache w (snd (add_item user productId quantity w))"
    using assms
    by (auto simp: add_item_def store_defs same_cache_def split: option.splits jsval.splits)
  show "same_cache w (snd (update_item user productId quantity w))"
    using assms
    by (auto simp: update_item_def store_defs same_cache_def split: option.splits jsval.splits)
  show "same_cache w (snd (bulk_update toNumber user items w))"
    using assms
    by (auto simp: bulk_update_def store_defs same_cache_def split: option.splits)
  show "same_cache w (snd (clear_cart user w))"
    using assms
    by (auto simp: clear_cart_def store_defs same_cache_def split: option.splits)
qed

text \<open>
  C2, amended. For an authenticated user and a well-formed request: each of the four
  mutating calls performs three store operations, and when one of them fails the call
  answers 500. When it is the first operation that fails, the cache-side state (cart
  hashes, expiries and dirty set) is exactly as before the call. Nothing is undone when
  a later operation fails.
\<close>

theorem mutating_call_store_failure:
  "userId \<noteq> [] \<Longrightarrow> \<not> no_fault 3 w \<Longrightarrow>
   (pid \<noteq> [] \<and> 0 < q \<longrightarrow> status (fst (add_item (Some userId) (Some pid) (JNum q) w)) = 500)
   \<and> (pid \<noteq> [] \<and> (nullish quantity \<or> is_number quantity) \<longrightarrow>
        status (fst (update_item (Some userId) (Some pid) quantity w)) = 500)
   \<and> status (fst (bulk_update toNumber (Some userId) (Some items) w)) = 500
   \<and> status (fst (clear_cart (Some userId) w)) = 500
   \<and> (hd (faults w) \<longrightarrow>
        same_cache w (snd (add_item (Some userId) (Some pid) (JNum q) w))
        \<and> same_cache w (snd (update_item (Some userId) (Some pid) quantity w))
        \<and> same_cache w (snd (bulk_update toNumber (Some userId) (Some items) w))
        \<and> same_cache w (snd (clear_cart (Some userId) w)))"
proof (intro conjI impI)
  assume u: "userId \<noteq> []" and f: "\<not> no_fault 3 w"
  show "status (fst (bulk_update toNumber (Some userId) (Some items) w)) = 500"
    using u f by (rule bulk_update_fault)
  show "status (fst (clear_cart (Some userId) w)) = 500"
    using u f by (rule clear_cart_fault)
  {
    assume "pid \<noteq> [] \<and> 0 < q"
    then show "status (fst (add_item (Some userId) (Some pid) (JNum q) w)) = 500"
      using add_item_fault [OF u _ _ f] by blast
  }
  {
    assume "pid \<noteq> [] \<and> (nullish quantity \<or> is_number quantity)"
    then show "status (fst (update_item (Some userId) (Some pid) quantity w)) = 500"
      using update_item_fault [OF u _ _ f] by blast
  }
  {
    assume "hd (faults w)"
    with f obtain r where r: "faults w = True # r"
      by (cases "faults w") (auto simp: no_fault_def)
    show "same_cache w (snd (add_item (Some userId) (Some pid) (JNum q) w))"
      and "same_cache w (snd (update_item (Some userId) (Some pid) quantity w))"
      and "same_cache w (snd (bulk_update toNumber (Some userId) (Some items) w))"
      and "same_cache w (snd (clear_cart (Some userId) w))"
      using first_fault_same_cache [OF r] by blast+
  }
qed

text \<open>C2, the amended statement on the empty world with the first operation failing.\<close>

theorem mutating_call_store_failure_witness:
  "status (fst (add_item (Some ''u'') (Some ''A'') (JNum 2) (empty_world\<lparr>faults := [True]\<rparr>))) = 500
   \<and> status (fst (update_item (Some ''u'') (Some ''A'') (JNum 2) (empty_world\<lparr>faults := [True]\<rparr>))) = 500
   \<and> status (fst (bulk_update (\<lambda>s. None) (Some ''u'') (Some [(''A'', JNum 2)]) (empty_world\<lparr>faults := [True]\<rparr>))) = 500
   \<and> status (fst (clear_cart (Some ''u'') (empty_world\<lparr>faults := [True]\<rparr>))) = 500
   \<and> same_cache (empty_world\<lparr>faults := [True]\<rparr>)
        (snd (add_item (Some ''u'') (Some ''A'') (JNum 2) (empty_world\<lparr>faults := [True]\<rparr>)))
   \<and> same_cache (empty_world\<lparr>faults := [True]\<rparr>)
        (snd (clear_cart (Some ''u'') (empty_world\<lparr>faults := [True]\<rparr>)))"
  using mutating_call_store_failure [of "''u''" "empty_world\<lparr>faults := [True]\<rparr>" "''A''" 2 "JNum 2"
      "\<lambda>s. None" "[(''A'', JNum 2)]"]
  by (simp add: no_fault_def empty_world_def)

text \<open>
  C2 as stated fails: the increment succeeds, the expiry command fails; the call answers
  500 and the cart hash, empty before, now holds the field.
\<close>

theorem add_item_partial_counterexample:
  "status (fst (add_item (Some ''u'') (Some ''A'') (JNum 2) (empty_world\<lparr>faults := [False, True]\<rparr>))) = 500
   \<and> hashes (empty_world\<lparr>faults := [False, True]\<rparr>) ''cart:u'' = []
   \<and> hashes (snd (add_item (Some ''u'') (Some ''A'') (JNum 2) (empty_world\<lparr>faults := [False, True]\<rparr>))) ''cart:u''
        = [(''A'', ''2'')]"
  by (simp add: add_item_def store_defs eval_defs)

section \<open>Updating a quantity to zero\<close>

lemma update_item_zero_once:
  assumes u: "userId \<noteq> []" and p: "pid \<noteq> []" and nf: "no_fault 3 w"
  shows "status (fst (update_item (Some userId) (Some pid) (JNum 0) w)) = 200"
    and "hashes (snd (update_item (Some userId) (Some pid) (JNum 0) w)) (cart_key (Some userId))
           = AList.delete pid (hashes w (cart_key (Some userId)))"
    and "expiry (snd (update_item (Some userId) (Some pid) (JNum 0) w)) (cart_key (Some userId))
           = (if AList.delete pid (hashes w (cart_key (Some userId))) = [] then None else Some CART_TTL)"
    and "userId \<in> set (sets (snd (update_item (Some userId) (Some pid) (JNum 0) w)) ''dirtyCarts'')"
proof -
  note S = update_item_def store_defs u p
  show "status (fst (update_item (Some userId) (Some pid) (JNum 0) w)) = 200"
    using nf by (cases rule: no_fault3_cases) (simp_all add: S)
  show "hashes (snd (update_item (Some userId) (Some pid) (JNum 0) w)) (cart_key (Some userId))
           = AList.delete pid (hashes w (cart_key (Some userId)))"
    using nf by (cases rule: no_fault3_cases) (simp_all add: S)
  show "expiry (snd (update_item (Some userId) (Some pid) (JNum 0) w)) (cart_key (Some userId))
           = (if AList.delete pid (hashes w (cart_key (Some userId))) = [] then None else Some CART_TTL)"
    using nf by (cases rule: no_fault3_cases) (simp_all add: S)
  show "userId \<in> set (sets (snd (update_item (Some userId) (Some pid) (JNum 0) w)) ''dirtyCarts'')"
    using nf by (cases rule: no_fault3_cases) (simp_all add: S)
qed

lemma update_item_zero_again:
  assumes u: "userId \<noteq> []" and p: "pid \<noteq> []"
    and absent: "pid \<notin> fst ` set (hashes v (cart_key (Some userId)))"
    and ex: "expiry v (cart_key (Some userId))
               = (if hashes v (cart_key (Some userId)) = [] then None else Some CART_TTL)"
    and d: "userId \<in> set (sets v ''dirtyCarts'')"
  shows "same_cache v (snd (update_item (Some userId) (Some pid) (JNum 0) v))"
proof -
  have del: "AList.delete pid (hashes v (cart_key (Some userId))) = hashes v (cart_key (Some userId))"
    using absent by simp
  have ins: "List.insert userId (sets v ''dirtyCarts'') = sets v ''dirtyCarts''"
    using d by simp
  show ?thesis
  proof (cases "hashes v (cart_key (Some userId)) = []")
    case True
    have e: "(expiry v)(cart_key (Some userId) := None) = expiry v"
      using ex True by (simp add: fun_upd_idem)
    have h: "(hashes v)(cart_key (Some userId) := []) = hashes v"
      using True by (simp add: fun_upd_idem)
    show ?thesis
      by (simp add: update_item_def store_defs u p same_cache_def del ins True e h
               split: list.splits)
  next
    case False
    have e: "(expiry v)(cart_key (Some userId) \<mapsto> CART_TTL) = expiry v"
      using ex False by (simp add: fun_upd_idem)
    show ?thesis
      by (simp add: update_item_def store_defs u p same_cache_def del ins False e
               split: list.splits)
  qed
qed

text \<open>
  C8. For an authenticated user and a product id: when the three store operations of
  \<open>update_item\<close> with quantity 0 do not fail, the call answers 200 and the product is
  absent from the cart; running the same call once more, whatever fails or not in the
  second run, leaves the cache-side state (cart hashes, expiries, dirty set) exactly as
  the first call left it.
\<close>

theorem update_item_zero_idempotent:
  "userId \<noteq> [] \<Longrightarrow> pid \<noteq> [] \<Longrightarrow> no_fault 3 w \<Longrightarrow>
   status (fst (update_item (Some userId) (Some pid) (JNum 0) w)) = 200
   \<and> pid \<notin> fst ` set (hashes (snd (update_item (Some userId) (Some pid) (JNum 0) w))
                            (cart_key (Some userId)))
   \<and> same_cache (snd (update_item (Some userId) (Some pid) (JNum 0) w))
         (snd (update_item (Some userId) (Some pid) (JNum 0)
                 (snd (update_item (Some userId) (Some pid) (JNum 0) w))))"
proof (intro conjI)
  assume u: "userId \<noteq> []" and p: "pid \<noteq> []" and nf: "no_fault 3 w"
  note once = update_item_zero_once [OF u p nf]
  let ?w1 = "snd (update_item (Some userId) (Some pid) (JNum 0) w)"
  show "status (fst (update_item (Some userId) (Some pid) (JNum 0) w)) = 200"
    by (rule once(1))
  show absent: "pid \<notin> fst ` set (hashes ?w1 (cart_key (Some userId)))"
    unfolding once(2) by (rule delete_notin_dom)
  have ex: "expiry ?w1 (cart_key (Some userId))
              = (if hashes ?w1 (cart_key (Some userId)) = [] then None else Some CART_TTL)"
    unfolding once(2) once(3) by simp
  show "same_cache ?w1 (snd (update_item (Some userId) (Some pid) (JNum 0) ?w1))"
    using u p absent ex once(4) by (rule update_item_zero_again)
qed

text \<open>C8 on a cart that holds the product: set to 2, then updated to 0 twice.\<close>

theorem update_item_zero_idempotent_witness:
  "status (fst (update_item (Some ''u'') (Some ''A'') (JNum 0)
       (snd (update_item (Some ''u'') (Some ''A'') (JNum 2) empty_world)))) = 200
   \<and> hashes (snd (update_item (Some ''u'') (Some ''A'') (JNum 0)
       (snd (update_item (Some ''u'') (Some ''A'') (JNum 2) empty_world)))) ''cart:u'' = []
   \<and> same_cache
        (snd (update_item (Some ''u'') (Some ''A'') (JNum 0)
           (snd (update_item (Some ''u'') (Some ''A'') (JNum 2) empty_world))))
        (snd (update_item (Some ''u'') (Some ''A'') (JNum 0)
           (snd (update_item (Some ''u'') (Some ''A'') (JNum 0)
              (snd (update_item (Some ''u'') (Some ''A'') (JNum 2) empty_world))))))"
proof -
  let ?w = "snd (update_item (Some ''u'') (Some ''A'') (JNum 2) empty_world)"
  have nf: "no_fault 3 ?w"
    by (simp add: update_item_def store_defs eval_defs)
  have h: "hashes (snd (update_item (Some ''u'') (Some ''A'') (JNum 0) ?w)) ''cart:u'' = []"
    by (simp add: update_item_def store_defs eval_defs number_toString_def)
  show ?thesis
    using update_item_zero_idempotent [of "''u''" "''A''" ?w] nf h
    by simp
qed

section \<open>The bulk update\<close>

lemma bulk_fold_absent:
  assumes "\<forall>item \<in> set post. fst item = pid \<longrightarrow> \<not> js_gt_zero toNumber (snd item)"
    and "pid \<notin> fst ` set (hashes w key)"
  shows "pid \<notin> fst ` set (hashes (fold run_command (bulk_pipeline toNumber key post) w) key)"
  using assms
proof (induction post arbitrary: w)
  case Nil
  then show ?case by (simp add: bulk_pipeline_def)
next
  case (Cons item post)
  let ?c = "if js_gt_zero toNumber (snd item) then HSet key (fst item) (js_toString (snd item))
            else HDel key (fst item)"
  have step: "pid \<notin> fst ` set (hashes (run_command ?c w) key)"
  proof (cases "js_gt_zero toNumber (snd item)")
    case True
    then have "fst item \<noteq> pid" using Cons.prems(1) by auto
    then show ?thesis using True Cons.prems(2) by (simp add: set_hash_def dom_update)
  next
    case False
    then show ?thesis
      using Cons.prems(2) dom_delete_subset [of "fst item" "hashes w key"]
      by (auto simp: set_hash_def)
  qed
  have "pid \<notin> fst ` set (hashes (fold run_command (bulk_pipeline toNumber key post) (run_command ?c w)) key)"
    using Cons.IH [of "run_command ?c w"] Cons.prems(1) step by simp
  then show ?case by (simp add: bulk_pipeline_def)
qed

lemma bulk_pipeline_append:
  "bulk_pipeline toNumber key (pre @ post) = bulk_pipeline toNumber key pre @ bulk_pipeline toNumber key post"
  by (simp add: bulk_pipeline_def)

lemma bulk_deleted:
  assumes "items = pre @ (pid, q) # post" and "\<not> js_gt_zero toNumber q"
    and "\<forall>item \<in> set post. fst item = pid \<longrightarrow> \<not> js_gt_zero toNumber (snd item)"
  shows "pid \<notin> fst ` set (hashes (fold run_command (bulk_pipeline toNumber key items) w) key)"
proof -
  let ?w1 = "fold run_command (bulk_pipeline toNumber key pre) w"
  have "pid \<notin> fst ` set (hashes (run_command (HDel key pid) ?w1) key)"
    by (simp add: set_hash_def delete_notin_dom)
  then have "pid \<notin> fst ` set (hashes (fold run_command (bulk_pipeline toNumber key post)
                (run_command (HDel key pid) ?w1)) key)"
    using assms(3) by (rule bulk_fold_absent [rotated])
  then show ?thesis
    using assms(1,2) by (simp add: bulk_pipeline_append) (simp add: bulk_pipeline_def)
qed

lemma bulk_update_ok:
  assumes u: "userId \<noteq> []" and nf: "no_fault 3 w"
  shows "fst (bulk_update toNumber (Some userId) (Some items) w) = Response 200 (Message ''Cart updated in bulk'')"
    and "hashes (snd (bulk_update toNumber (Some userId) (Some items) w)) (cart_key (Some userId))
          = hashes (fold run_command (bulk_pipeline toNumber (cart_key (Some userId)) items) w) (cart_key (Some userId))"
    and "hashes (snd (bulk_update toNumber (Some userId) (Some items) w)) (cart_key (Some userId)) \<noteq> []
          \<longrightarrow> expiry (snd (bulk_update toNumber (Some userId) (Some items) w)) (cart_key (Some userId)) = Some 86400"
    and "userId \<in> set (sets (snd (bulk_update toNumber (Some userId) (Some items) w)) ''dirtyCarts'')"
proof -
  note S = bulk_update_def store_defs u CART_TTL_def
  show "fst (bulk_update toNumber (Some userId) (Some items) w) = Response 200 (Message ''Cart updated in bulk'')"
    using nf by (cases rule: no_fault3_cases) (simp_all add: S)
  show "hashes (snd (bulk_update toNumber (Some userId) (Some items) w)) (cart_key (Some userId))
          = hashes (fold run_command (bulk_pipeline toNumber (cart_key (Some userId)) items) w) (cart_key (Some userId))"
    using nf by (cases rule: no_fault3_cases) (simp_all add: S)
  show "hashes (snd (bulk_update toNumber (Some userId) (Some items) w)) (cart_key (Some userId)) \<noteq> []
          \<longrightarrow> expiry (snd (bulk_update toNumber (Some userId) (Some items) w)) (cart_key (Some userId)) = Some 86400"
    using nf by (cases rule: no_fault3_cases) (simp_all add: S)
  show "userId \<in> set (sets (snd (bulk_update toNumber (Some userId) (Some items) w)) ''dirtyCarts'')"
    using nf by (cases rule: no_fault3_cases) (simp_all add: S)
qed


text \<open>
  C10. The bulk update validates no item. For an authenticated user, any list of items
  and no failing store operation: the call answers 200 ``Cart updated in bulk''; an item
  whose quantity is not above 0 contributes the command \<^verbatim>\<open>HDEL\<close> for its product, so the
  product is absent from the cart afterwards unless a later item of the same list sets
  it again; the expiry of the cart, when the cart still exists, is 24 hours; the user is
  in the dirty set. A missing or null quantity, a string that is not a number, zero and
  a negative number are all not above 0.
\<close>

theorem bulk_update_deletes_without_validation:
  "userId \<noteq> [] \<Longrightarrow> no_fault 3 w \<Longrightarrow>
   fst (bulk_update toNumber (Some userId) (Some items) w)
     = Response 200 (Message ''Cart updated in bulk'')
   \<and> (\<forall>item \<in> set items. \<not> js_gt_zero toNumber (snd item) \<longrightarrow>
         bulk_pipeline toNumber (cart_key (Some userId)) [item] = [HDel (cart_key (Some userId)) (fst item)])
   \<and> (\<forall>pre pid q post.
         items = pre @ (pid, q) # post \<and> \<not> js_gt_zero toNumber q
         \<and> (\<forall>item \<in> set post. fst item = pid \<longrightarrow> \<not> js_gt_zero toNumber (snd item)) \<longrightarrow>
         pid \<notin> fst ` set (hashes (snd (bulk_update toNumber (Some userId) (Some items) w))
                               (cart_key (Some userId))))
   \<and> (hashes (snd (bulk_update toNumber (Some userId) (Some items) w)) (cart_key (Some userId)) \<noteq> [] \<longrightarrow>
         expiry (snd (bulk_update toNumber (Some userId) (Some items) w)) (cart_key (Some userId))
           = Some 86400)
   \<and> userId \<in> set (sets (snd (bulk_update toNumber (Some userId) (Some items) w)) ''dirtyCarts'')
   \<and> \<not> js_gt_zero toNumber JUndefined \<and> \<not> js_gt_zero toNumber JNull
   \<and> (toNumber s = None \<longrightarrow> \<not> js_gt_zero toNumber (JStr s))
   \<and> (r \<le> 0 \<longrightarrow> \<not> js_gt_zero toNumber (JNum r))"
proof (intro conjI allI impI ballI)
  assume u: "userId \<noteq> []" and nf: "no_fault 3 w"
  note ok = bulk_update_ok [OF u nf, of toNumber items]
  show "fst (bulk_update toNumber (Some userId) (Some items) w)
     = Response 200 (Message ''Cart updated in bulk'')"
    by (rule ok(1))
  show "hashes (snd (bulk_update toNumber (Some userId) (Some items) w)) (cart_key (Some userId)) \<noteq> [] \<Longrightarrow>
         expiry (snd (bulk_update toNumber (Some userId) (Some items) w)) (cart_key (Some userId))
           = Some 86400"
    using ok(3) by blast
  show "userId \<in> set (sets (snd (bulk_update toNumber (Some userId) (Some items) w)) ''dirtyCarts'')"
    by (rule ok(4))
  show "\<not> js_gt_zero toNumber JUndefined" "\<not> js_gt_zero toNumber JNull"
    by simp_all
  show "toNumber s = None \<Longrightarrow> \<not> js_gt_zero toNumber (JStr s)"
    by simp
  show "r \<le> 0 \<Longrightarrow> \<not> js_gt_zero toNumber (JNum r)"
    by simp
  show "\<And>item. item \<in> set items \<Longrightarrow> \<not> js_gt_zero toNumber (snd item) \<Longrightarrow>
         bulk_pipeline toNumber (cart_key (Some userId)) [item] = [HDel (cart_key (Some userId)) (fst item)]"
    by (simp add: bulk_pipeline_def)
  show "\<And>pre pid q post.
         items = pre @ (pid, q) # post \<and> \<not> js_gt_zero toNumber q
         \<and> (\<forall>item \<in> set post. fst item = pid \<longrightarrow> \<not> js_gt_zero toNumber (snd item)) \<Longrightarrow>
         pid \<notin> fst ` set (hashes (snd (bulk_update toNumber (Some userId) (Some items) w))
                               (cart_key (Some userId)))"
    unfolding ok(2) using bulk_deleted by blast
qed

text \<open>
  C10 on a cart holding A, B, C and F: items with a null, zero, non-numeric, missing and
  negative quantity delete A, B and C (D and E were not there); F stays.
\<close>

theorem bulk_update_deletes_without_validation_witness:
  "fst (bulk_update (\<lambda>s. None) (Some ''u'')
          (Some [(''A'', JNull), (''B'', JNum 0), (''C'', JStr ''abc''), (''D'', JUndefined), (''E'', JNum (- 1))])
          (set_hash ''cart:u'' [(''A'', ''1''), (''B'', ''2''), (''C'', ''3''), (''F'', ''4'')] empty_world))
     = Response 200 (Message ''Cart updated in bulk'')
   \<and> hashes (snd (bulk_update (\<lambda>s. None) (Some ''u'')
          (Some [(''A'', JNull), (''B'', JNum 0), (''C'', JStr ''abc''), (''D'', JUndefined), (''E'', JNum (- 1))])
          (set_hash ''cart:u'' [(''A'', ''1''), (''B'', ''2''), (''C'', ''3''), (''F'', ''4'')] empty_world)))
        ''cart:u'' = [(''F'', ''4'')]
   \<and> expiry (snd (bulk_update (\<lambda>s. None) (Some ''u'')
          (Some [(''A'', JNull), (''B'', JNum 0), (''C'', JStr ''abc''), (''D'', JUndefined), (''E'', JNum (- 1))])
          (set_hash ''cart:u'' [(''A'', ''1''), (''B'', ''2''), (''C'', ''3''), (''F'', ''4'')] empty_world)))
        ''cart:u'' = Some 86400
   \<and> ''u'' \<in> set (sets (snd (bulk_update (\<lambda>s. None) (Some ''u'')
          (Some [(''A'', JNull), (''B'', JNum 0), (''C'', JStr ''abc''), (''D'', JUndefined), (''E'', JNum (- 1))])
          (set_hash ''cart:u'' [(''A'', ''1''), (''B'', ''2''), (''C'', ''3''), (''F'', ''4'')] empty_world)))
        ''dirtyCarts'')"
proof -
  let ?w = "set_hash ''cart:u'' [(''A'', ''1''), (''B'', ''2''), (''C'', ''3''), (''F'', ''4'')] empty_world"
  let ?items = "[(''A'', JNull), (''B'', JNum 0), (''C'', JStr ''abc''), (''D'', JUndefined), (''E'', JNum (- 1))]"
  have nf: "no_fault 3 ?w"
    by (simp add: no_fault_def set_hash_def empty_world_def)
  have h: "hashes (snd (bulk_update (\<lambda>s. None) (Some ''u'') (Some ?items) ?w)) ''cart:u'' = [(''F'', ''4'')]"
    by (simp add: bulk_update_def bulk_pipeline_def store_defs eval_defs)
  have ck: "cart_key (Some ''u'') = ''cart:u''"
    by (simp add: cart_key_def CART_KEY_PREFIX_def)
  show ?thesis
    using bulk_update_deletes_without_validation [of "''u''" ?w "\<lambda>s. None" ?items "''abc''" 0] nf h
    by (simp add: ck)
qed

section \<open>Stored quantities are positive integers\<close>






lemma quantities_ok_frame [simp]:
  "quantities_ok (w\<lparr>faults := fs\<rparr>) = quantities_ok w"
  "quantities_ok (w\<lparr>sets := s\<rparr>) = quantities_ok w"
  "quantities_ok (w\<lparr>expiry := e\<rparr>) = quantities_ok w"
  "quantities_ok (w\<lparr>console := c\<rparr>) = quantities_ok w"
  by (simp_all add: quantities_ok_def)



































section \<open>Fetching the cart: fallback-restore\<close>

lemma update_fresh: "k \<notin> fst ` set al \<Longrightarrow> AList.update k v al = al @ [(k, v)]"
  by (induction al) auto

lemma fold_update_fresh:
  assumes "distinct (map k rows)" "k ` set rows \<inter> fst ` set acc = {}"
  shows "fold (\<lambda>row acc. AList.update (k row) (v row) acc) rows acc
           = acc @ map (\<lambda>row. (k row, v row)) rows"
  using assms
proof (induction rows arbitrary: acc)
  case Nil
  then show ?case by simp
next
  case (Cons row rows)
  have fresh: "k row \<notin> fst ` set acc" using Cons.prems(2) by auto
  have "k ` set rows \<inter> fst ` set (acc @ [(k row, v row)]) = {}"
    using Cons.prems by auto
  then show ?case using Cons.IH [of "acc @ [(k row, v row)]"] Cons.prems(1) fresh
    by (simp add: update_fresh)
qed

lemma rows_to_cart_distinct: "distinct (map fst rows) \<Longrightarrow> rows_to_cart rows = rows"
  using fold_update_fresh [of fst rows "[]" snd] by (simp add: rows_to_cart_def)

lemma fold_hset_fresh:
  assumes "distinct (map fst cart)" "fst ` set cart \<inter> fst ` set (hashes w key) = {}"
  shows "hashes (fold run_command (map (\<lambda>entry. HSet key (fst entry) (g (snd entry))) cart) w) key
           = hashes w key @ map (\<lambda>entry. (fst entry, g (snd entry))) cart"
  using assms
proof (induction cart arbitrary: w)
  case Nil
  then show ?case by simp
next
  case (Cons entry cart)
  let ?w1 = "run_command (HSet key (fst entry) (g (snd entry))) w"
  have fresh: "fst entry \<notin> fst ` set (hashes w key)" using Cons.prems(2) by auto
  have h1: "hashes ?w1 key = hashes w key @ [(fst entry, g (snd entry))]"
    using fresh by (simp add: set_hash_def update_fresh)
  have "fst ` set cart \<inter> fst ` set (hashes ?w1 key) = {}"
    unfolding h1 using Cons.prems by auto
  then have "hashes (fold run_command (map (\<lambda>entry. HSet key (fst entry) (g (snd entry))) cart) ?w1) key
           = hashes ?w1 key @ map (\<lambda>entry. (fst entry, g (snd entry))) cart"
    using Cons.IH [of ?w1] Cons.prems(1) by simp
  then show ?case unfolding h1 by simp
qed

lemma restore_result:
  assumes "hashes w key = []" "distinct (map fst cart)" "cart \<noteq> []"
  shows "hashes (fold run_command (restore_pipeline key cart) w) key
           = map (\<lambda>entry. (fst entry, int_toString (snd entry))) cart"
    and "expiry (fold run_command (restore_pipeline key cart) w) key = Some CART_TTL"
proof -
  let ?w1 = "fold run_command (map (\<lambda>entry. HSet key (fst entry) (int_toString (snd entry))) cart) w"
  have h: "hashes ?w1 key = map (\<lambda>entry. (fst entry, int_toString (snd entry))) cart"
    using fold_hset_fresh [of cart w key int_toString] assms(1,2) by simp
  show "hashes (fold run_command (restore_pipeline key cart) w) key
           = map (\<lambda>entry. (fst entry, int_toString (snd entry))) cart"
    using h assms(1) by (simp add: restore_pipeline_def)
  have ne: "hashes ?w1 key \<noteq> []" unfolding h using assms(3) by simp
  show "expiry (fold run_command (restore_pipeline key cart) w) key = Some CART_TTL"
    using ne by (simp add: restore_pipeline_def)
qed

lemma parseCart_restored:
  "parseCart (map (\<lambda>entry. (fst entry, int_toString (snd entry))) rows)
     = map (\<lambda>entry. (fst entry, Some (snd entry))) rows"
  by (simp add: parseCart_def parseInt_int_toString)

lemma filter_unique:
  "distinct (map f xs) \<Longrightarrow> filter (\<lambda>x. f x = a) xs = [] \<or> (\<exists>x. filter (\<lambda>x. f x = a) xs = [x])"
proof (induction xs)
  case Nil
  then show ?case by simp
next
  case (Cons x xs)
  show ?case
  proof (cases "f x = a")
    case True
    have "f x \<notin> f ` set xs" using Cons.prems by simp
    then have "\<forall>y \<in> set xs. f y \<noteq> a" using True by blast
    then have "filter (\<lambda>x. f x = a) xs = []"
      by (simp add: filter_empty_conv)
    then show ?thesis using True by simp
  next
    case False
    then show ?thesis using Cons by simp
  qed
qed

lemma distinct_second:
  "distinct (map (\<lambda>r. (g r, h r)) xs) \<Longrightarrow> distinct (map h (filter (\<lambda>r. g r = a) xs))"
  by (induction xs) (auto simp: image_iff)

lemma cart_rows_distinct:
  assumes "unique_rows t"
  shows "distinct (map fst (cart_rows_of userId t))"
proof -
  have d: "distinct (map ci_product_id (filter (\<lambda>r. ci_cart_id r = a) (cart_items t)))" for a
    using assms distinct_second [of ci_cart_id ci_product_id "cart_items t" a]
    by (simp add: unique_rows_def)
  have "distinct (map c_user_id (carts t))" using assms by (simp add: unique_rows_def)
  then consider "filter (\<lambda>c. c_user_id c = userId) (carts t) = []"
    | c where "filter (\<lambda>c. c_user_id c = userId) (carts t) = [c]"
    using filter_unique [of c_user_id "carts t" userId] by blast
  then show ?thesis
  proof cases
    case 1
    then show ?thesis by (simp add: cart_rows_of_def)
  next
    case 2
    then show ?thesis using d [of "c_id c"] by (simp add: cart_rows_of_def comp_def)
  qed
qed

lemma get_cart_restore:
  assumes absent: "hashes w (cart_key (Some userId)) = []"
    and rows: "cart_rows_of userId (pg w) = rows" "rows \<noteq> []" "distinct (map fst rows)"
    and nf: "no_fault 3 w"
  shows "fst (get_cart (Some userId) w) = Response 200 (Cart (map (\<lambda>entry. (fst entry, Some (snd entry))) rows))"
    and "hashes (snd (get_cart (Some userId) w)) (cart_key (Some userId))
           = map (\<lambda>entry. (fst entry, int_toString (snd entry))) rows"
    and "expiry (snd (get_cart (Some userId) w)) (cart_key (Some userId)) = Some 86400"
    and "sets (snd (get_cart (Some userId) w)) = sets w"
proof -
  note r = restore_result [OF absent rows(3) rows(2)]
  note S = get_cart_def hGetAll_def select_cart_items_def exec_def io_def attempt_def
    absent rows rows_to_cart_distinct [OF rows(3)] r
  show "fst (get_cart (Some userId) w) = Response 200 (Cart (map (\<lambda>entry. (fst entry, Some (snd entry))) rows))"
    using nf by (cases rule: no_fault3_cases) (simp_all add: S)
  show "hashes (snd (get_cart (Some userId) w)) (cart_key (Some userId))
           = map (\<lambda>entry. (fst entry, int_toString (snd entry))) rows"
    using nf by (cases rule: no_fault3_cases) (simp_all add: S)
  show "expiry (snd (get_cart (Some userId) w)) (cart_key (Some userId)) = Some 86400"
    using nf by (cases rule: no_fault3_cases) (simp_all add: S CART_TTL_def)
  show "sets (snd (get_cart (Some userId) w)) = sets w"
    using nf by (cases rule: no_fault3_cases) (simp_all add: S)
qed

lemma get_cart_nothing:
  assumes absent: "hashes w (cart_key (Some userId)) = []"
    and rows: "cart_rows_of userId (pg w) = []"
    and nf: "no_fault 3 w"
  shows "fst (get_cart (Some userId) w) = Response 200 (Cart [])"
    and "same_cache w (snd (get_cart (Some userId) w))"
proof -
  note S = get_cart_def hGetAll_def select_cart_items_def exec_def io_def attempt_def
    absent rows same_cache_def
  show "fst (get_cart (Some userId) w) = Response 200 (Cart [])"
    using nf by (cases rule: no_fault3_cases) (simp_all add: S)
  show "same_cache w (snd (get_cart (Some userId) w))"
    using nf by (cases rule: no_fault3_cases) (simp_all add: S)
qed

text \<open>
  C6. The cache-side cart of the user is absent, the tables respect the uniqueness
  constraints of the schema and none of the three store operations fails. When the
  durable mirror holds rows \<open>M\<close> for the user, \<open>get_cart\<close> answers 200 with exactly \<open>M\<close>;
  afterwards the cache-side cart holds exactly the products of \<open>M\<close> with the decimal
  text of their quantities (\<open>parseCart\<close> reads \<open>M\<close> back from it), its expiry is 24
  hours, and no set of the cache store (the dirty set among them) has changed. When the
  mirror holds no row, \<open>get_cart\<close> answers 200 with the empty mapping and the cache-side
  state is as before.
\<close>

theorem fallback_restore_round_trip:
  "hashes w (cart_key (Some userId)) = [] \<Longrightarrow> unique_rows (pg w) \<Longrightarrow> no_fault 3 w \<Longrightarrow>
   (cart_rows_of userId (pg w) \<noteq> [] \<longrightarrow>
      fst (get_cart (Some userId) w)
        = Response 200 (Cart (map (\<lambda>entry. (fst entry, Some (snd entry))) (cart_rows_of userId (pg w))))
      \<and> hashes (snd (get_cart (Some userId) w)) (cart_key (Some userId))
          = map (\<lambda>entry. (fst entry, int_toString (snd entry))) (cart_rows_of userId (pg w))
      \<and> parseCart (hashes (snd (get_cart (Some userId) w)) (cart_key (Some userId)))
          = map (\<lambda>entry. (fst entry, Some (snd entry))) (cart_rows_of userId (pg w))
      \<and> expiry (snd (get_cart (Some userId) w)) (cart_key (Some userId)) = Some 86400
      \<and> sets (snd (get_cart (Some userId) w)) = sets w)
   \<and> (cart_rows_of userId (pg w) = [] \<longrightarrow>
        fst (get_cart (Some userId) w) = Response 200 (Cart [])
        \<and> same_cache w (snd (get_cart (Some userId) w)))"
proof (intro conjI impI)
  assume absent: "hashes w (cart_key (Some userId)) = []"
    and uniq: "unique_rows (pg w)" and nf: "no_fault 3 w"
  {
    assume ne: "cart_rows_of userId (pg w) \<noteq> []"
    note r = get_cart_restore [OF absent refl ne cart_rows_distinct [OF uniq] nf]
    show "fst (get_cart (Some userId) w)
        = Response 200 (Cart (map (\<lambda>entry. (fst entry, Some (snd entry))) (cart_rows_of userId (pg w))))"
      by (rule r(1))
    show "hashes (snd (get_cart (Some userId) w)) (cart_key (Some userId))
          = map (\<lambda>entry. (fst entry, int_toString (snd entry))) (cart_rows_of userId (pg w))"
      by (rule r(2))
    show "parseCart (hashes (snd (get_cart (Some userId) w)) (cart_key (Some userId)))
          = map (\<lambda>entry. (fst entry, Some (snd entry))) (cart_rows_of userId (pg w))"
      unfolding r(2) by (rule parseCart_restored)
    show "expiry (snd (get_cart (Some userId) w)) (cart_key (Some userId)) = Some 86400"
      by (rule r(3))
    show "sets (snd (get_cart (Some userId) w)) = sets w"
      by (rule r(4))
  }
  {
    assume e: "cart_rows_of userId (pg w) = []"
    show "fst (get_cart (Some userId) w) = Response 200 (Cart [])"
      using absent e nf by (rule get_cart_nothing(1))
    show "same_cache w (snd (get_cart (Some userId) w))"
      using absent e nf by (rule get_cart_nothing(2))
  }
qed

text \<open>C6 on the mirror \<open>A: 2, B: 1\<close> of the spec's round-trip example, and on the empty world.\<close>

theorem fallback_restore_round_trip_witness:
  "fst (get_cart (Some ''u'') mirrored_world) = Response 200 (Cart [(''A'', Some 2), (''B'', Some 1)])
   \<and> hashes (snd (get_cart (Some ''u'') mirrored_world)) ''cart:u'' = [(''A'', ''2''), (''B'', ''1'')]
   \<and> parseCart (hashes (snd (get_cart (Some ''u'') mirrored_world)) ''cart:u'')
        = [(''A'', Some 2), (''B'', Some 1)]
   \<and> expiry (snd (get_cart (Some ''u'') mirrored_world)) ''cart:u'' = Some 86400
   \<and> sets (snd (get_cart (Some ''u'') mirrored_world)) ''dirtyCarts'' = []
   \<and> fst (get_cart (Some ''u'') empty_world) = Response 200 (Cart [])"
proof -
  have ck: "cart_key (Some ''u'') = ''cart:u''"
    by (simp add: cart_key_def CART_KEY_PREFIX_def)
  have a: "hashes mirrored_world ''cart:u'' = []" "hashes empty_world ''cart:u'' = []"
    by (simp_all add: mirrored_world_def empty_world_def)
  have u: "unique_rows (pg mirrored_world)" "unique_rows (pg empty_world)"
    by (simp_all add: unique_rows_def mirrored_world_def empty_world_def)
  have nf: "no_fault 3 mirrored_world" "no_fault 3 empty_world"
    by (simp_all add: no_fault_def mirrored_world_def empty_world_def)
  have rows: "cart_rows_of ''u'' (pg mirrored_world) = [(''A'', 2), (''B'', 1)]"
    "cart_rows_of ''u'' (pg empty_world) = []"
    by (simp_all add: cart_rows_of_def mirrored_world_def empty_world_def)
  have dec: "int_toString 2 = ''2''" "int_toString 1 = ''1''"
    by (simp_all add: int_toString_def nat_toString.simps digit_char_def)
  have pc: "parseCart [(''A'', ''2''), (''B'', ''1'')] = [(''A'', Some 2), (''B'', Some 1)]"
    by (simp add: eval_defs)
  have s: "sets mirrored_world ''dirtyCarts'' = []"
    by (simp add: mirrored_world_def empty_world_def)
  show ?thesis
    using fallback_restore_round_trip [of mirrored_world "''u''"]
      fallback_restore_round_trip [of empty_world "''u''"] a u nf s
    by (simp add: ck rows dec pc)
qed

section \<open>The reconciler run\<close>

lemma no_fault2_cases:
  assumes "no_fault 2 w"
  obtains "faults w = []" | "faults w = [False]" | r where "faults w = False # False # r"
proof (cases "faults w")
  case Nil
  then show ?thesis using that by simp
next
  case (Cons a l1)
  then show ?thesis using that assms by (cases l1) (auto simp: no_fault_def)
qed

lemma sync_user_empty:
  assumes e: "hashes w (''cart:'' @ userId) = []" and nf: "no_fault 2 w"
  shows "fst (sync_user userId w) = Inr ()"
    and "pg (snd (sync_user userId w)) = pg w"
    and "next_id (snd (sync_user userId w)) = next_id w"
    and "console (snd (sync_user userId w)) = console w"
    and "userId \<notin> set (sets (snd (sync_user userId w)) ''dirtyCarts'')"
proof -
  have e': "hashes w (CHR ''c'' # CHR ''a'' # CHR ''r'' # CHR ''t'' # CHR '':'' # userId) = []"
    using e by simp
  note S = sync_user_def syncCartToPostgres_def store_defs parseCart_def e'
  show "fst (sync_user userId w) = Inr ()"
    using nf by (cases rule: no_fault2_cases) (simp_all add: S)
  show "pg (snd (sync_user userId w)) = pg w"
    using nf by (cases rule: no_fault2_cases) (simp_all add: S)
  show "next_id (snd (sync_user userId w)) = next_id w"
    using nf by (cases rule: no_fault2_cases) (simp_all add: S)
  show "console (snd (sync_user userId w)) = console w"
    using nf by (cases rule: no_fault2_cases) (simp_all add: S)
  show "userId \<notin> set (sets (snd (sync_user userId w)) ''dirtyCarts'')"
    using nf by (cases rule: no_fault2_cases) (simp_all add: S)
qed

text \<open>
  C5, amended. For a dirty user whose cache-side cart is empty or absent when the loop
  reaches the user, and with the read of the cart and the removal from the dirty set not
  failing: the iteration raises nothing, runs no statement on the durable store (tables
  and id sequence are as before, so the cart row is neither created nor are its
  timestamps refreshed), logs nothing, and the user is no longer in the dirty set.
\<close>

theorem empty_cart_flush_is_skipped:
  "hashes w (''cart:'' @ userId) = [] \<Longrightarrow> no_fault 2 w \<Longrightarrow>
   fst (sync_user userId w) = Inr ()
   \<and> pg (snd (sync_user userId w)) = pg w
   \<and> next_id (snd (sync_user userId w)) = next_id w
   \<and> console (snd (sync_user userId w)) = console w
   \<and> userId \<notin> set (sets (snd (sync_user userId w)) ''dirtyCarts'')"
  by (simp add: sync_user_empty)

lemmas sync_defs = cart_sync_run_def sync_user_def syncCartToPostgres_def sync_transaction_def
  connect_def query_begin_def query_commit_def query_rollback_def upsert_cart_def
  delete_cart_items_def insert_cart_items_def upsert_cart_item_def

text \<open>C5, the amended statement on a dirty user with a stale durable cart.\<close>

theorem empty_cart_flush_is_skipped_witness:
  "fst (sync_user ''U'' stale_world) = Inr ()
   \<and> pg (snd (sync_user ''U'' stale_world)) = pg stale_world
   \<and> ''U'' \<in> set (sets stale_world ''dirtyCarts'')
   \<and> ''U'' \<notin> set (sets (snd (sync_user ''U'' stale_world)) ''dirtyCarts'')"
proof -
  have e: "hashes stale_world (''cart:'' @ ''U'') = []"
    by (simp add: stale_world_def empty_world_def)
  have nf: "no_fault 2 stale_world"
    by (simp add: no_fault_def stale_world_def empty_world_def)
  have d: "''U'' \<in> set (sets stale_world ''dirtyCarts'')"
    by (simp add: stale_world_def empty_world_def)
  show ?thesis
    using empty_cart_flush_is_skipped [OF e nf] d by simp
qed

text \<open>
  C5 as stated fails: user \<open>U\<close> is dirty with no cache-side cart; after a run at time 100
  the durable cart row still carries the timestamps 5 (no upsert ran) and the user has
  left the dirty set.
\<close>

theorem empty_cart_no_upsert_counterexample:
  "hashes stale_world ''cart:U'' = []
   \<and> sets stale_world ''dirtyCarts'' = [''U'']
   \<and> now stale_world = 100
   \<and> carts (pg (cart_sync_run stale_world))
        = [\<lparr>c_id = 1, c_user_id = ''U'', c_updated_at = 5, c_last_synced_at = 5\<rparr>]
   \<and> sets (cart_sync_run stale_world) ''dirtyCarts'' = []"
  by (simp add: sync_defs store_defs parseCart_def stale_world_def empty_world_def)

text \<open>
  C1 does not hold of the code. Users \<open>X\<close> and \<open>Y\<close> are dirty; during the flush of \<open>X\<close> the
  upsert of the cart row fails. \<open>syncCartToPostgres\<close> catches the error, rolls back, logs
  it and returns normally, so the loop goes on to \<^verbatim>\<open>sRem\<close>: after the run \<open>X\<close> has left
  the dirty set although nothing of its cart reached the durable store. \<open>Y\<close> was flushed
  and removed, as the claim says.
\<close>

theorem failed_flush_still_unmarks_user:
  "sets two_dirty_world ''dirtyCarts'' = [''X'', ''Y'']
   \<and> sets (cart_sync_run two_dirty_world) ''dirtyCarts'' = []
   \<and> cart_rows_of ''X'' (pg (cart_sync_run two_dirty_world)) = []
   \<and> cart_rows_of ''Y'' (pg (cart_sync_run two_dirty_world)) = [(''B'', 2)]
   \<and> console (cart_sync_run two_dirty_world) = [(''Failed to sync cart for user'', StoreUnavailable)]"
  by (simp add: sync_defs store_defs eval_defs two_dirty_world_def cart_rows_of_def)

section \<open>Checkout\<close>

lemma parseCart_keys [simp]: "map fst (parseCart h) = map fst h"
  by (induction h) (auto simp: parseCart_def)

lemma parseCart_length [simp]: "length (parseCart h) = length h"
  by (simp add: parseCart_def)

lemma missing_product_count:
  assumes "distinct ids" "distinct (map p_id ps)" "\<exists>p \<in> set ids. p \<notin> p_id ` set ps"
  shows "length (filter (\<lambda>p. p_id p \<in> set ids) ps) \<noteq> length ids"
proof -
  let ?found = "filter (\<lambda>p. p_id p \<in> set ids) ps"
  have "distinct (map p_id ?found)" using assms(2) by (rule distinct_map_filter)
  then have "length ?found = card (set (map p_id ?found))"
    using distinct_card [of "map p_id ?found"] by simp
  moreover have "set (map p_id ?found) \<subset> set ids" using assms(3) by auto
  then have "card (set (map p_id ?found)) < card (set ids)"
    by (simp add: psubset_card_mono)
  moreover have "card (set ids) = length ids" using assms(1) by (rule distinct_card)
  ultimately show ?thesis by simp
qed

lemmas checkout_defs = checkout_def checkout_transaction_def checkout_failed_def query_begin_def
  select_prices_def connect_def query_rollback_def query_commit_def insert_order_def
  insert_order_item_def delete_carts_def

lemma checkout_missing_product:
  assumes u: "userId \<noteq> []"
    and cart: "hashes w (cart_key (Some userId)) \<noteq> []" "distinct (map fst (hashes w (cart_key (Some userId))))"
    and uniq: "unique_rows (pg w)"
    and missing: "\<exists>p \<in> fst ` set (hashes w (cart_key (Some userId))). unit_price (pg w) p = None"
    and tx: "tx w = None"
  shows "fst (checkout (Some userId) w) = Response 500 (Error ''Checkout failed'')"
    and "pg (snd (checkout (Some userId) w)) = pg w"
    and "same_cache w (snd (checkout (Some userId) w))"
    and "no_fault 5 w \<longrightarrow>
           console (snd (checkout (Some userId) w)) = console w @ [(''Checkout failed'', ProductsNotFound)]"
proof -
  have "\<exists>p \<in> set (map fst (hashes w (cart_key (Some userId)))). p \<notin> p_id ` set (products (pg w))"
    using missing by (auto simp: unit_price_def map_of_eq_None_iff image_iff)
  then have count: "length (filter (\<lambda>p. p_id p \<in> fst ` set (hashes w (cart_key (Some userId)))) (products (pg w)))
                  \<noteq> length (hashes w (cart_key (Some userId)))"
    using missing_product_count [of "map fst (hashes w (cart_key (Some userId)))" "products (pg w)"]
      cart(2) uniq by (simp add: unique_rows_def)
  note S = checkout_defs store_defs u cart(1) count tx
  show "fst (checkout (Some userId) w) = Response 500 (Error ''Checkout failed'')"
    by (simp add: S split: list.splits)
  show "pg (snd (checkout (Some userId) w)) = pg w"
    by (simp add: S split: list.splits)
  show "same_cache w (snd (checkout (Some userId) w))"
    by (simp add: S same_cache_def split: list.splits)
  show "no_fault 5 w \<longrightarrow>
           console (snd (checkout (Some userId) w)) = console w @ [(''Checkout failed'', ProductsNotFound)]"
    by (auto simp: S no_fault_def split: list.splits)
qed

text \<open>
  C4. An authenticated user holds a non-empty cache-side cart (with distinct fields) in
  which some product id has no price in the catalogue; the tables respect the uniqueness
  constraints and no transaction is open. Then, whatever store operation fails or not,
  \<open>checkout\<close> answers 500 ``Checkout failed'', the tables of the durable store are as
  before (no order row, no order-item row) and the cache-side state is as before. When
  none of the five store operations on the way fails, the error the handler caught and
  logged is the one thrown for the missing product.
\<close>

theorem checkout_missing_product_fails:
  "userId \<noteq> [] \<Longrightarrow> hashes w (cart_key (Some userId)) \<noteq> [] \<Longrightarrow>
   distinct (map fst (hashes w (cart_key (Some userId)))) \<Longrightarrow> unique_rows (pg w) \<Longrightarrow> tx w = None \<Longrightarrow>
   \<exists>p \<in> fst ` set (hashes w (cart_key (Some userId))). unit_price (pg w) p = None \<Longrightarrow>
   fst (checkout (Some userId) w) = Response 500 (Error ''Checkout failed'')
   \<and> (no_fault 5 w \<longrightarrow>
         console (snd (checkout (Some userId) w)) = console w @ [(''Checkout failed'', ProductsNotFound)])
   \<and> orders (pg (snd (checkout (Some userId) w))) = orders (pg w)
   \<and> order_items (pg (snd (checkout (Some userId) w))) = order_items (pg w)
   \<and> pg (snd (checkout (Some userId) w)) = pg w
   \<and> same_cache w (snd (checkout (Some userId) w))"
  using checkout_missing_product [of userId w] by simp

text \<open>C4 on the spec's example: product \<open>A\<close> has left the catalogue before the checkout.\<close>

theorem checkout_missing_product_fails_witness:
  "fst (checkout (Some ''u'') (priced_world\<lparr>pg := (pg priced_world)\<lparr>products := []\<rparr>\<rparr>))
     = Response 500 (Error ''Checkout failed'')
   \<and> console (snd (checkout (Some ''u'') (priced_world\<lparr>pg := (pg priced_world)\<lparr>products := []\<rparr>\<rparr>)))
        = [(''Checkout failed'', ProductsNotFound)]
   \<and> orders (pg (snd (checkout (Some ''u'') (priced_world\<lparr>pg := (pg priced_world)\<lparr>products := []\<rparr>\<rparr>)))) = []
   \<and> order_items (pg (snd (checkout (Some ''u'') (priced_world\<lparr>pg := (pg priced_world)\<lparr>products := []\<rparr>\<rparr>)))) = []
   \<and> hashes (snd (checkout (Some ''u'') (priced_world\<lparr>pg := (pg priced_world)\<lparr>products := []\<rparr>\<rparr>))) ''cart:u''
        = [(''A'', ''3'')]"
proof -
  let ?w = "priced_world\<lparr>pg := (pg priced_world)\<lparr>products := []\<rparr>\<rparr>"
  have ck: "cart_key (Some ''u'') = ''cart:u''"
    by (simp add: cart_key_def CART_KEY_PREFIX_def)
  have h: "hashes ?w ''cart:u'' = [(''A'', ''3'')]"
    by (simp add: priced_world_def empty_world_def)
  have facts: "unique_rows (pg ?w)" "tx ?w = None" "no_fault 5 ?w" "console ?w = []"
    "orders (pg ?w) = []" "order_items (pg ?w) = []" "unit_price (pg ?w) ''A'' = None"
    by (simp_all add: unique_rows_def no_fault_def unit_price_def priced_world_def empty_world_def)
  show ?thesis
    using checkout_missing_product_fails [of "''u''" ?w] h facts
    by (simp add: ck same_cache_def)
qed
















end
